theory Spec2Isabelle
  imports Main "HOL-Library.AList"
begin

section \<open>Python values and exceptions\<close>

text \<open>
  The values that flow through \<^verbatim>\<open>utils.py\<close>: the entries of the connection cache are
  Python dictionaries with string keys, and a decoded JSON body is any JSON value.
  No arithmetic is done on a number with a fraction or an exponent; it is kept as the
  text it was decoded from. A dictionary is an association list; a key is looked up with \<open>map_of\<close> and assigned
  with \<open>AList.update\<close>.
\<close>

datatype pyval =
    PyNone
  | PyBool bool
  | PyInt int
  | PyFloat string
  | PyStr string
  | PyList "pyval list"
  | PyDict "(string \<times> pyval) list"

text \<open>
  Every exception that leaves a function is a value: \<open>Inl\<close> of one of these. The
  constructor \<open>OtherError\<close> stands for any exception of a collaborator that the module
  neither raises nor catches itself (a network failure, a rejected login).
\<close>

datatype error =
    EntityNotFoundException
  | KeyError string
  | TypeError
  | AttributeError
  | ValueError
  | UnicodeDecodeError
  | JSONDecodeError
  | XMLSyntaxError
  | UploadException
  | VcdTaskException
  | VcdResponseError int pyval
  | OtherError string

section \<open>The connection cache\<close>

text \<open>
  Modelled from the spec: the class \<^verbatim>\<open>cachetools.LRUCache\<close> behind
  \<^verbatim>\<open>cache = LRUCache(maxsize=1024)\<close> (line 29) is not part of the sources. The
  spec describes it as a fixed-capacity least-recently-used map of capacity 1024, ordered
  by access, where the insertion of a key beyond the capacity evicts the least recently
  used one. The cache is the list of its entries, least recently used first. A
  membership test leaves the order alone; reading or writing a key makes it the most
  recently used one.
\<close>

type_synonym ('k, 'v) lru_cache = "('k \<times> 'v) list"

definition maxsize :: nat where
  "maxsize = 1024"

definition cache_contains :: "('k, 'v) lru_cache \<Rightarrow> 'k \<Rightarrow> bool" where
  "cache_contains c k = (case map_of c k of None \<Rightarrow> False | Some v \<Rightarrow> True)"

definition cache_remove :: "('k, 'v) lru_cache \<Rightarrow> 'k \<Rightarrow> ('k, 'v) lru_cache" where
  "cache_remove c k = filter (\<lambda>p. fst p \<noteq> k) c"

definition cache_getitem :: "('k, 'v) lru_cache \<Rightarrow> 'k \<Rightarrow> ('v \<times> ('k, 'v) lru_cache) option" where
  "cache_getitem c k =
     (case map_of c k of
        None \<Rightarrow> None
      | Some v \<Rightarrow> Some (v, cache_remove c k @ [(k, v)]))"

definition cache_setitem :: "('k, 'v) lru_cache \<Rightarrow> 'k \<Rightarrow> 'v \<Rightarrow> ('k, 'v) lru_cache" where
  "cache_setitem c k v =
     (if cache_contains c k then cache_remove c k @ [(k, v)]
      else drop (Suc (length c) - maxsize) c @ [(k, v)])"

datatype ('k, 'v) cache_op = Getitem 'k | Setitem 'k 'v

fun cache_apply :: "('k, 'v) lru_cache \<Rightarrow> ('k, 'v) cache_op \<Rightarrow> ('k, 'v) lru_cache" where
  "cache_apply c (Getitem k) = (case cache_getitem c k of None \<Rightarrow> c | Some (v, c') \<Rightarrow> c')"
| "cache_apply c (Setitem k v) = cache_setitem c k v"

definition cache_run :: "('k, 'v) cache_op list \<Rightarrow> ('k, 'v) lru_cache" where
  "cache_run ops = foldl cache_apply [] ops"

section \<open>get_vsphere\<close>

text \<open>
  The configuration is the dictionary CSE loads and validates before use; the keys read
  here are \<^verbatim>\<open>config['vcd']\<close> and the list \<^verbatim>\<open>config['vcs']\<close>.
\<close>

record vcd_config =
  vcd_host :: string
  vcd_api_version :: string
  vcd_verify :: bool
  vcd_username :: string
  vcd_password :: string

record vc_config =
  vc_name :: string
  vc_username :: string
  vc_password :: string

record config =
  vcd :: vcd_config
  vcs :: "vc_config list"

text \<open>What \<^verbatim>\<open>urlparse\<close> gives: \<^verbatim>\<open>hostname\<close> and \<^verbatim>\<open>port\<close>, each of them possibly None.\<close>

record parsed_url =
  url_hostname :: "string option"
  url_port :: "int option"

text \<open>
  The result is the object that the call \<^verbatim>\<open>VSphere(a, b, c, d)\<close> of lines 602 and 603
  constructs. The class belongs to \<^verbatim>\<open>vsphere_guest_run\<close>, not to the sources: the
  object is the call with its four positional arguments, in their order, and which
  parameters of the class they are bound to is not said here.
\<close>

datatype vsphere = VSphere pyval pyval pyval pyval

text \<open>
  The collaborators of \<^verbatim>\<open>get_vsphere\<close> (pyvcloud and \<^verbatim>\<open>urllib\<close>) are parameters;
  each of them may raise. \<open>'vm\<close> is the VM resource of the system session.
  \<^item> \<open>vapp_get_vm_id\<close>: \<^verbatim>\<open>vapp.get_vm(vm_name).get('id')\<close> on the caller's vApp (line 568);
  \<^item> \<open>set_credentials\<close>: the new \<^verbatim>\<open>Client\<close> and its login as system administrator
    (lines 570 to 578);
  \<^item> \<open>sys_get_vm\<close>: \<^verbatim>\<open>VApp(client, href=vapp.href).get_vm(vm_name)\<close> (lines 581, 582);
  \<^item> \<open>get_vc\<close>: \<^verbatim>\<open>VM(client, resource=vm_resource).get_vc()\<close> (lines 583, 584);
  \<^item> \<open>get_vcenter_url\<close>: \<^verbatim>\<open>Platform(client).get_vcenter(vcenter_name).Url.text\<close>
    (lines 585 to 587);
  \<^item> \<open>urlparse\<close>: \<^verbatim>\<open>urlparse\<close> with the reads of \<^verbatim>\<open>hostname\<close> and \<^verbatim>\<open>port\<close>
    (lines 587 to 590).
\<close>

record 'vm vcd_env =
  vapp_get_vm_id :: "string \<Rightarrow> error + string"
  set_credentials :: "vcd_config \<Rightarrow> error + unit"
  sys_get_vm :: "string \<Rightarrow> error + 'vm"
  get_vc :: "'vm \<Rightarrow> error + string"
  get_vcenter_url :: "string \<Rightarrow> error + string"
  urlparse :: "string \<Rightarrow> error + parsed_url"

text \<open>The calls to the platform, in the order they are issued.\<close>

datatype event =
    VappGetVm string
  | Login string string
  | SysGetVm string
  | GetVc
  | GetVcenter string

fun is_login :: "event \<Rightarrow> bool" where
  "is_login (Login h u) = True"
| "is_login e = False"

definition opt_str :: "string option \<Rightarrow> pyval" where
  "opt_str x = (case x of None \<Rightarrow> PyNone | Some s \<Rightarrow> PyStr s)"

definition opt_int :: "int option \<Rightarrow> pyval" where
  "opt_int x = (case x of None \<Rightarrow> PyNone | Some i \<Rightarrow> PyInt i)"

text \<open>
  Lines 592 to 596: the loop over \<^verbatim>\<open>config['vcs']\<close>. The first entry of that name
  sets both keys and ends the loop; with no such entry the dictionary is left as it is.
\<close>

fun vcs_loop :: "vc_config list \<Rightarrow> string \<Rightarrow> (string \<times> pyval) list \<Rightarrow> (string \<times> pyval) list" where
  "vcs_loop [] vcenter_name cache_item = cache_item"
| "vcs_loop (vc # rest) vcenter_name cache_item =
     (if vc_name vc = vcenter_name
      then AList.update ''password'' (PyStr (vc_password vc))
             (AList.update ''username'' (PyStr (vc_username vc)) cache_item)
      else vcs_loop rest vcenter_name cache_item)"

text \<open>
  Lines 570 to 596: the resolution chain of a cache miss, up to the dictionary that will
  be stored. An exception ends the chain with the calls issued so far.
\<close>

definition get_vsphere_miss ::
  "'vm vcd_env \<Rightarrow> config \<Rightarrow> string \<Rightarrow> (error + (string \<times> pyval) list) \<times> event list" where
  "get_vsphere_miss env cfg vm_name =
     (let login = Login (vcd_host (vcd cfg)) (vcd_username (vcd cfg)) in
      case set_credentials env (vcd cfg) of
        Inl e \<Rightarrow> (Inl e, [login])
      | Inr u \<Rightarrow>
     (case sys_get_vm env vm_name of
        Inl e \<Rightarrow> (Inl e, [login, SysGetVm vm_name])
      | Inr vm_resource \<Rightarrow>
     (case get_vc env vm_resource of
        Inl e \<Rightarrow> (Inl e, [login, SysGetVm vm_name, GetVc])
      | Inr vcenter_name \<Rightarrow>
     (case get_vcenter_url env vcenter_name of
        Inl e \<Rightarrow> (Inl e, [login, SysGetVm vm_name, GetVc, GetVcenter vcenter_name])
      | Inr url_text \<Rightarrow>
     (case urlparse env url_text of
        Inl e \<Rightarrow> (Inl e, [login, SysGetVm vm_name, GetVc, GetVcenter vcenter_name])
      | Inr vcenter_url \<Rightarrow>
          (Inr (vcs_loop (vcs cfg) vcenter_name
                  [(''hostname'', opt_str (url_hostname vcenter_url)),
                   (''port'', opt_int (url_port vcenter_url))]),
           [login, SysGetVm vm_name, GetVc, GetVcenter vcenter_name]))))))"

text \<open>
  \<^verbatim>\<open>cache[vm_id][key]\<close>: the read of the cache makes the entry the most recently used
  one, also when the key is then missing from the entry.
\<close>

definition cache_field ::
  "(string, (string \<times> pyval) list) lru_cache \<Rightarrow> string \<Rightarrow> string \<Rightarrow>
   (error + pyval) \<times> (string, (string \<times> pyval) list) lru_cache" where
  "cache_field c vm_id key =
     (case cache_getitem c vm_id of
        None \<Rightarrow> (Inl (KeyError vm_id), c)
      | Some (item, c') \<Rightarrow>
          (case map_of item key of
             None \<Rightarrow> (Inl (KeyError key), c')
           | Some v \<Rightarrow> (Inr v, c')))"

text \<open>
  Lines 599 to 603: the debug message, when a logger is given, and the construction of
  the result from four reads of the cache, in the order of the arguments.
\<close>

definition get_vsphere_return ::
  "bool \<Rightarrow> (string, (string \<times> pyval) list) lru_cache \<Rightarrow> string \<Rightarrow>
   (error + vsphere) \<times> (string, (string \<times> pyval) list) lru_cache" where
  "get_vsphere_return logger c vm_id =
     (case (if logger then cache_field c vm_id ''hostname'' else (Inr PyNone, c)) of
        (Inl e, c0) \<Rightarrow> (Inl e, c0)
      | (Inr msg, c0) \<Rightarrow>
     (case cache_field c0 vm_id ''hostname'' of
        (Inl e, c1) \<Rightarrow> (Inl e, c1)
      | (Inr h, c1) \<Rightarrow>
     (case cache_field c1 vm_id ''username'' of
        (Inl e, c2) \<Rightarrow> (Inl e, c2)
      | (Inr u, c2) \<Rightarrow>
     (case cache_field c2 vm_id ''password'' of
        (Inl e, c3) \<Rightarrow> (Inl e, c3)
      | (Inr p, c3) \<Rightarrow>
     (case cache_field c3 vm_id ''port'' of
        (Inl e, c4) \<Rightarrow> (Inl e, c4)
      | (Inr q, c4) \<Rightarrow>
          (Inr (VSphere h u p q), c4))))))"

text \<open>
  The function itself: the result or the exception, the cache afterwards, and the calls
  to the platform. The cache is the module's global, so it is passed in and returned.
\<close>

definition get_vsphere ::
  "'vm vcd_env \<Rightarrow> config \<Rightarrow> bool \<Rightarrow> (string, (string \<times> pyval) list) lru_cache \<Rightarrow> string \<Rightarrow>
   (error + vsphere) \<times> (string, (string \<times> pyval) list) lru_cache \<times> event list" where
  "get_vsphere env cfg logger c vm_name =
     (case vapp_get_vm_id env vm_name of
        Inl e \<Rightarrow> (Inl e, c, [VappGetVm vm_name])
      | Inr vm_id \<Rightarrow>
          (if \<not> cache_contains c vm_id then
             (case get_vsphere_miss env cfg vm_name of
                (Inl e, tr) \<Rightarrow> (Inl e, c, VappGetVm vm_name # tr)
              | (Inr cache_item, tr) \<Rightarrow>
                  (case get_vsphere_return logger (cache_setitem c vm_id cache_item) vm_id of
                     (r, c') \<Rightarrow> (r, c', VappGetVm vm_name # tr)))
           else
             (case get_vsphere_return logger c vm_id of
                (r, c') \<Rightarrow> (r, c', [VappGetVm vm_name]))))"

text \<open>A platform for the examples: one VM, managed by the vCenter of the given name.\<close>

definition example_env :: "bool \<Rightarrow> string \<Rightarrow> string vcd_env" where
  "example_env login_ok vcenter =
     \<lparr>vapp_get_vm_id = (\<lambda>n. if n = ''node-1'' then Inr ''urn:vcloud:vm:1''
                              else Inl EntityNotFoundException),
      set_credentials = (\<lambda>c. if login_ok then Inr () else Inl (OtherError ''login'')),
      sys_get_vm = (\<lambda>n. if n = ''node-1'' then Inr ''vm-1'' else Inl EntityNotFoundException),
      get_vc = (\<lambda>vm. Inr vcenter),
      get_vcenter_url = (\<lambda>n. if n = ''vc9'' then Inl EntityNotFoundException
                               else Inr (''https://'' @ n @ ''.example.com:443'')),
      urlparse = (\<lambda>u. Inr \<lparr>url_hostname = Some (drop 8 (take (length u - 4) u)),
                            url_port = Some 443\<rparr>)\<rparr>"

definition example_config :: config where
  "example_config =
     \<lparr>vcd = \<lparr>vcd_host = ''vcd.example.com'', vcd_api_version = ''31.0'', vcd_verify = True,
             vcd_username = ''administrator'', vcd_password = ''secret''\<rparr>,
      vcs = [\<lparr>vc_name = ''vc1'', vc_username = ''u1'', vc_password = ''p1''\<rparr>,
             \<lparr>vc_name = ''vc2'', vc_username = ''u2'', vc_password = ''p2''\<rparr>]\<rparr>"

section \<open>The catalog workflow\<close>

text \<open>
  The calls of \<^verbatim>\<open>upload_ova_to_catalog\<close> and \<^verbatim>\<open>wait_for_catalog_item_to_resolve\<close>
  go to pyvcloud: they are parameters, each of them takes the state \<open>'s\<close> of the platform
  and returns the state afterwards with its value or its exception. \<open>'o\<close> is the
  \<^verbatim>\<open>Org\<close> object. Of a catalog item the code reads \<^verbatim>\<open>item.Entity.get('href')\<close>, of the
  resource behind it the list \<^verbatim>\<open>resource.Tasks.Task\<close>. \<open>path_name\<close> is
  \<^verbatim>\<open>pathlib.Path(filepath).name\<close>. Messages to the console and to the logger are left
  out.
\<close>

record catalog_item =
  entity_href :: string

record resource =
  tasks :: "string list"

record ('s, 'o) vcd_ops =
  client_get_org :: "'s \<Rightarrow> (error + 'o) \<times> 's"
  client_get_org_by_name :: "'s \<Rightarrow> string \<Rightarrow> (error + 'o) \<times> 's"
  org_get_catalog_item :: "'s \<Rightarrow> 'o \<Rightarrow> string \<Rightarrow> string \<Rightarrow> (error + catalog_item) \<times> 's"
  org_delete_catalog_item :: "'s \<Rightarrow> 'o \<Rightarrow> string \<Rightarrow> string \<Rightarrow> (error + unit) \<times> 's"
  org_upload_ovf :: "'s \<Rightarrow> 'o \<Rightarrow> string \<Rightarrow> string \<Rightarrow> (error + unit) \<times> 's"
  org_reload :: "'s \<Rightarrow> 'o \<Rightarrow> (error + unit) \<times> 's"
  client_get_resource :: "'s \<Rightarrow> string \<Rightarrow> (error + resource) \<times> 's"
  wait_for_success :: "'s \<Rightarrow> string \<Rightarrow> (error + unit) \<times> 's"
  path_name :: "string \<Rightarrow> string"

text \<open>The calls to the platform, recorded in the order they are issued.\<close>

datatype call =
    GetOrg "string option"
  | GetCatalogItem string string
  | DeleteCatalogItem string string
  | UploadOvf string string
  | Reload
  | GetResource string
  | WaitForSuccess string

fun is_upload :: "call \<Rightarrow> bool" where
  "is_upload (UploadOvf c f) = True"
| "is_upload x = False"

fun is_wait :: "call \<Rightarrow> bool" where
  "is_wait (WaitForSuccess t) = True"
| "is_wait x = False"

fun is_reload :: "call \<Rightarrow> bool" where
  "is_reload Reload = True"
| "is_reload x = False"

fun is_delete :: "call \<Rightarrow> bool" where
  "is_delete (DeleteCatalogItem c n) = True"
| "is_delete x = False"

text \<open>
  A statement runs on the state of the platform and the calls so far. An exception ends
  the statements that follow it; what the platform has done before stays done.
\<close>

type_synonym 's world = "'s \<times> call list"

definition call :: "call \<Rightarrow> ('s \<Rightarrow> (error + 'a) \<times> 's) \<Rightarrow> 's world \<Rightarrow> (error + 'a) \<times> 's world" where
  "call c f w = (case f (fst w) of (r, s') \<Rightarrow> (r, (s', snd w @ [c])))"

definition and_then ::
  "('w \<Rightarrow> (error + 'a) \<times> 'w) \<Rightarrow> ('a \<Rightarrow> 'w \<Rightarrow> (error + 'b) \<times> 'w) \<Rightarrow> 'w \<Rightarrow> (error + 'b) \<times> 'w" where
  "and_then m f w = (case m w of (Inl e, w') \<Rightarrow> (Inl e, w') | (Inr a, w') \<Rightarrow> f a w')"

definition returns :: "'a \<Rightarrow> 'w \<Rightarrow> (error + 'a) \<times> 'w" where
  "returns a w = (Inr a, w)"

definition raise :: "error \<Rightarrow> 'w \<Rightarrow> (error + 'a) \<times> 'w" where
  "raise e w = (Inl e, w)"

text \<open>\<^verbatim>\<open>try: m except EntityNotFoundException: h\<close>; any other exception passes through.\<close>

definition except_not_found ::
  "('w \<Rightarrow> (error + 'a) \<times> 'w) \<Rightarrow> ('w \<Rightarrow> (error + 'a) \<times> 'w) \<Rightarrow> 'w \<Rightarrow> (error + 'a) \<times> 'w" where
  "except_not_found m h w =
     (case m w of
        (Inl e, w') \<Rightarrow> (if e = EntityNotFoundException then h w' else (Inl e, w'))
      | (Inr a, w') \<Rightarrow> (Inr a, w'))"

text \<open>Lines 423 to 441.\<close>

definition get_org :: "('s, 'o) vcd_ops \<Rightarrow> string option \<Rightarrow> 's world \<Rightarrow> (error + 'o) \<times> 's world" where
  "get_org ops org_name =
     (case org_name of
        None \<Rightarrow> call (GetOrg None) (client_get_org ops)
      | Some n \<Rightarrow> call (GetOrg (Some n)) (\<lambda>s. client_get_org_by_name ops s n))"

text \<open>\<^verbatim>\<open>if org is None: org = get_org(client, org_name=org_name)\<close>, in both functions.\<close>

definition resolve_org ::
  "('s, 'o) vcd_ops \<Rightarrow> 'o option \<Rightarrow> string option \<Rightarrow> 's world \<Rightarrow> (error + 'o) \<times> 's world" where
  "resolve_org ops org org_name =
     (case org of None \<Rightarrow> get_org ops org_name | Some o1 \<Rightarrow> returns o1)"

text \<open>
  Lines 402 to 420. \<^verbatim>\<open>resource.Tasks.Task[0]\<close> raises \<^verbatim>\<open>AttributeError\<close> when the
  resource has no task.
\<close>

definition wait_for_catalog_item_to_resolve ::
  "('s, 'o) vcd_ops \<Rightarrow> string \<Rightarrow> string \<Rightarrow> 'o option \<Rightarrow> string option \<Rightarrow>
   's world \<Rightarrow> (error + unit) \<times> 's world" where
  "wait_for_catalog_item_to_resolve ops catalog_name catalog_item_name org org_name =
     and_then (resolve_org ops org org_name) (\<lambda>org.
     and_then (call (GetCatalogItem catalog_name catalog_item_name)
                 (\<lambda>s. org_get_catalog_item ops s org catalog_name catalog_item_name)) (\<lambda>item.
     and_then (call (GetResource (entity_href item))
                 (\<lambda>s. client_get_resource ops s (entity_href item))) (\<lambda>resource.
     (case tasks resource of
        [] \<Rightarrow> raise AttributeError
      | t # ts \<Rightarrow> call (WaitForSuccess t) (\<lambda>s. wait_for_success ops s t)))))"

text \<open>
  Lines 335 to 399. The first part gives True when the function has returned early
  (line 384), False when the upload is to follow.
\<close>

definition upload_ova_to_catalog ::
  "('s, 'o) vcd_ops \<Rightarrow> string \<Rightarrow> string \<Rightarrow> bool \<Rightarrow> 'o option \<Rightarrow> string option \<Rightarrow>
   's world \<Rightarrow> (error + unit) \<times> 's world" where
  "upload_ova_to_catalog ops catalog_name filepath update org org_name =
     and_then (resolve_org ops org org_name) (\<lambda>org.
     (let catalog_item_name = path_name ops filepath in
     and_then
       (if update then
          except_not_found
            (and_then (call (DeleteCatalogItem catalog_name catalog_item_name)
                         (\<lambda>s. org_delete_catalog_item ops s org catalog_name catalog_item_name)) (\<lambda>u.
             and_then (call Reload (\<lambda>s. org_reload ops s org)) (\<lambda>u.
             and_then (wait_for_catalog_item_to_resolve ops catalog_name catalog_item_name
                         (Some org) None) (\<lambda>u.
             returns False))))
            (returns False)
        else
          except_not_found
            (and_then (call (GetCatalogItem catalog_name catalog_item_name)
                         (\<lambda>s. org_get_catalog_item ops s org catalog_name catalog_item_name)) (\<lambda>item.
             returns True))
            (returns False))
       (\<lambda>returned.
          if returned then returns ()
          else
            and_then (call (UploadOvf catalog_name filepath)
                        (\<lambda>s. org_upload_ovf ops s org catalog_name filepath)) (\<lambda>u.
            and_then (call Reload (\<lambda>s. org_reload ops s org)) (\<lambda>u.
            wait_for_catalog_item_to_resolve ops catalog_name catalog_item_name
              (Some org) None)))))"

text \<open>
  A platform for the examples: one organisation, one catalog \<open>templates\<close>, the state is the
  list of the names of its items. A delete takes the item out of the catalog at once
  when \<open>sync_delete\<close> holds, and leaves it visible otherwise; an upload is accepted when
  \<open>accept\<close> holds. The item name of the examples is the part of the path after its
  last slash; their paths do not end in one.
\<close>

definition basename :: "string \<Rightarrow> string" where
  "basename f = rev (takeWhile (\<lambda>c. c \<noteq> CHR ''/'') (rev f))"

definition example_ops :: "bool \<Rightarrow> bool \<Rightarrow> (string list, string) vcd_ops" where
  "example_ops sync_delete accept =
     \<lparr>client_get_org = (\<lambda>s. (Inr ''org'', s)),
      client_get_org_by_name =
        (\<lambda>s n. (if n = ''org'' then Inr ''org'' else Inl EntityNotFoundException, s)),
      org_get_catalog_item =
        (\<lambda>s org c n. (if c = ''templates'' \<and> n \<in> set s
                        then Inr \<lparr>entity_href = ''item/'' @ n\<rparr>
                        else Inl EntityNotFoundException, s)),
      org_delete_catalog_item =
        (\<lambda>s org c n. if c = ''templates'' \<and> n \<in> set s
                       then (Inr (), if sync_delete then removeAll n s else s)
                       else (Inl EntityNotFoundException, s)),
      org_upload_ovf =
        (\<lambda>s org c f. if c = ''templates'' \<and> accept then (Inr (), basename f # s)
                       else if c = ''templates'' then (Inl UploadException, s)
                       else (Inl EntityNotFoundException, s)),
      org_reload = (\<lambda>s org. (Inr (), s)),
      client_get_resource = (\<lambda>s h. (Inr \<lparr>tasks = [h @ ''/task'']\<rparr>, s)),
      wait_for_success = (\<lambda>s t. (Inr (), s)),
      path_name = basename\<rparr>"

section \<open>process_response\<close>

text \<open>
  A response has a status code and a content, which \<^verbatim>\<open>requests\<close> leaves None when there
  is nothing to read. The decoders are parameters: \<^verbatim>\<open>bytes.decode("utf-8")\<close>,
  \<^verbatim>\<open>json.loads\<close>, and \<^verbatim>\<open>objectify.fromstring(content).get('message')\<close>; each may
  raise.
\<close>

record response =
  status_code :: int
  content :: "string option"

record decoders =
  decode_utf8 :: "string \<Rightarrow> error + string"
  json_loads :: "string \<Rightarrow> error + pyval"
  objectify_message :: "string \<Rightarrow> error + pyval"

definition codes_ok :: int where "codes_ok = 200"
definition codes_created :: int where "codes_created = 201"
definition codes_accepted :: int where "codes_accepted = 202"

definition ERROR_REASON :: string where "ERROR_REASON = ''reason''"
definition ERROR_MESSAGE :: string where "ERROR_MESSAGE = ''message''"
definition ERROR_UNKNOWN :: string where "ERROR_UNKNOWN = ''unknown error''"

text \<open>
  \<^verbatim>\<open>key in value\<close> for a string key: the keys of a dictionary, the elements of a list,
  the substrings of a string; any other value raises \<^verbatim>\<open>TypeError\<close>. And
  \<^verbatim>\<open>value[key]\<close>, which only a dictionary allows.
\<close>

fun is_substring :: "string \<Rightarrow> string \<Rightarrow> bool" where
  "is_substring p [] = (p = [])"
| "is_substring p (c # cs) = (take (length p) (c # cs) = p \<or> is_substring p cs)"

fun py_in :: "string \<Rightarrow> pyval \<Rightarrow> error + bool" where
  "py_in key (PyDict d) = Inr (case map_of d key of None \<Rightarrow> False | Some v \<Rightarrow> True)"
| "py_in key (PyList xs) = Inr (PyStr key \<in> set xs)"
| "py_in key (PyStr s) = Inr (is_substring key s)"
| "py_in key v = Inl TypeError"

fun py_getitem :: "pyval \<Rightarrow> string \<Rightarrow> error + pyval" where
  "py_getitem (PyDict d) key = (case map_of d key of None \<Rightarrow> Inl (KeyError key) | Some v \<Rightarrow> Inr v)"
| "py_getitem v key = Inl TypeError"

text \<open>Lines 104 to 121.\<close>

definition deserialize_response_content :: "decoders \<Rightarrow> response \<Rightarrow> error + pyval" where
  "deserialize_response_content dec r =
     (case content r of
        None \<Rightarrow> Inl AttributeError
      | Some bytes \<Rightarrow>
          (case decode_utf8 dec bytes of
             Inl e \<Rightarrow> Inl e
           | Inr decoded \<Rightarrow>
               if length decoded > 0 then json_loads dec decoded else Inr (PyDict [])))"

text \<open>Lines 124 to 147. The value is \<open>Inr\<close> only if the function returns, which it never does.\<close>

definition response_to_exception :: "decoders \<Rightarrow> response \<Rightarrow> error + unit" where
  "response_to_exception dec r =
     (if status_code r = 504 then
        (case content r of
           None \<Rightarrow> Inl (VcdResponseError (status_code r) (PyStr ''An error has occurred.''))
         | Some bytes \<Rightarrow>
             if length bytes > 0 then
               (case objectify_message dec bytes of
                  Inl e \<Rightarrow> Inl e
                | Inr message \<Rightarrow> Inl (VcdResponseError (status_code r) message))
             else Inl (VcdResponseError (status_code r) (PyStr ''An error has occurred.'')))
      else
        (case deserialize_response_content dec r of
           Inl e \<Rightarrow> Inl e
         | Inr body \<Rightarrow>
        (case py_in ERROR_MESSAGE body of
           Inl e \<Rightarrow> Inl e
         | Inr False \<Rightarrow> Inl (VcdResponseError (status_code r) (PyStr ERROR_UNKNOWN))
         | Inr True \<Rightarrow>
        (case py_getitem body ERROR_MESSAGE of
           Inl e \<Rightarrow> Inl e
         | Inr msg \<Rightarrow>
        (case py_in ERROR_REASON msg of
           Inl e \<Rightarrow> Inl e
         | Inr False \<Rightarrow> Inl (VcdResponseError (status_code r) msg)
         | Inr True \<Rightarrow>
        (case py_getitem msg ERROR_REASON of
           Inl e \<Rightarrow> Inl e
         | Inr reason \<Rightarrow> Inl (VcdResponseError (status_code r) reason)))))))"

text \<open>
  Lines 79 to 101. After \<^verbatim>\<open>response_to_exception\<close> the function would fall off its end
  and return None.
\<close>

definition process_response :: "decoders \<Rightarrow> response \<Rightarrow> error + pyval" where
  "process_response dec r =
     (if status_code r \<in> set [codes_ok, codes_created, codes_accepted]
      then deserialize_response_content dec r
      else (case response_to_exception dec r of Inl e \<Rightarrow> Inl e | Inr u \<Rightarrow> Inr PyNone))"





section \<open>download_file\<close>

text \<open>
  The file system maps a path to a file with its bytes or to a directory. The hash
  object of \<^verbatim>\<open>hashlib\<close>, \<^verbatim>\<open>path.parent.mkdir(parents=True, exist_ok=True)\<close> and
  \<^verbatim>\<open>requests.get(url, stream=True)\<close> are parameters. The request gives the chunks that
  \<^verbatim>\<open>iter_content\<close> delivers and the exception that ends the stream, if one does.
  Messages to the console and to the logger are left out.
\<close>

datatype node = File string | Dir

type_synonym filesystem = "string \<Rightarrow> node option"

record 'h os_env =
  sha256_new :: 'h
  sha256_update :: "'h \<Rightarrow> string \<Rightarrow> 'h"
  sha256_hexdigest :: "'h \<Rightarrow> string"
  mkdir_parents :: "filesystem \<Rightarrow> string \<Rightarrow> error + filesystem"
  requests_get :: "string \<Rightarrow> error + string list \<times> error option"

definition BUF_SIZE :: nat where
  "BUF_SIZE = 65536"

text \<open>Lines 167 to 171: the file is read and hashed in chunks of \<open>BUF_SIZE\<close> bytes.\<close>

function sha256_read_loop :: "'h os_env \<Rightarrow> 'h \<Rightarrow> string \<Rightarrow> 'h" where
  "sha256_read_loop os h rest =
     (if take BUF_SIZE rest = [] then h
      else sha256_read_loop os (sha256_update os h (take BUF_SIZE rest)) (drop BUF_SIZE rest))"
  by pat_completeness auto
termination
  by (relation "measure (\<lambda>(os, h, rest). length rest)") (auto simp: BUF_SIZE_def)

text \<open>Lines 156 to 172.\<close>

definition get_sha256 :: "'h os_env \<Rightarrow> filesystem \<Rightarrow> string \<Rightarrow> error + string" where
  "get_sha256 os fs filepath =
     (case fs filepath of
        None \<Rightarrow> Inl (OtherError ''FileNotFoundError'')
      | Some Dir \<Rightarrow> Inl (OtherError ''IsADirectoryError'')
      | Some (File bytes) \<Rightarrow>
          Inr (sha256_hexdigest os (sha256_read_loop os (sha256_new os) bytes)))"

definition is_file :: "filesystem \<Rightarrow> string \<Rightarrow> bool" where
  "is_file fs filepath = (case fs filepath of Some (File bytes) \<Rightarrow> True | other \<Rightarrow> False)"

text \<open>
  Lines 260 to 297: the result, the file system afterwards and the URLs requested. The
  condition of line 275 reads the digest only for a file that exists and a sha256 that
  is given.
\<close>

definition download_file ::
  "'h os_env \<Rightarrow> string \<Rightarrow> string \<Rightarrow> string option \<Rightarrow> filesystem \<Rightarrow>
   (error + unit) \<times> filesystem \<times> string list" where
  "download_file os url filepath sha256 fs =
     (case (if is_file fs filepath then
              (case sha256 of
                 None \<Rightarrow> Inr True
               | Some h \<Rightarrow>
                   (case get_sha256 os fs filepath of
                      Inl e \<Rightarrow> Inl e
                    | Inr digest \<Rightarrow> Inr (digest = h)))
            else Inr False) of
        Inl e \<Rightarrow> (Inl e, fs, [])
      | Inr True \<Rightarrow> (Inr (), fs, [])
      | Inr False \<Rightarrow>
     (case mkdir_parents os fs filepath of
        Inl e \<Rightarrow> (Inl e, fs, [])
      | Inr fs1 \<Rightarrow>
     (case requests_get os url of
        Inl e \<Rightarrow> (Inl e, fs1, [url])
      | Inr (chunks, broken) \<Rightarrow>
     (case fs1 filepath of
        Some Dir \<Rightarrow> (Inl (OtherError ''IsADirectoryError''), fs1, [url])
      | other \<Rightarrow>
          (case broken of None \<Rightarrow> Inr () | Some e \<Rightarrow> Inl e,
           fs1(filepath \<mapsto> File (concat chunks)), [url])))))"

text \<open>
  An operating system for the examples: the digest of a file is its content, every
  directory exists, and every URL delivers the two chunks \<open>ne\<close> and \<open>w\<close>.
\<close>

definition example_os :: "string os_env" where
  "example_os =
     \<lparr>sha256_new = [],
      sha256_update = (\<lambda>h b. h @ b),
      sha256_hexdigest = (\<lambda>h. h),
      mkdir_parents = (\<lambda>fs p. Inr fs),
      requests_get = (\<lambda>u. Inr ([''ne'', ''w''], None))\<rparr>"

section \<open>Properties of the connection cache and of get_vsphere\<close>

lemma map_of_cache_remove:
  "map_of (cache_remove c k) k' = (if k' = k then None else map_of c k')"
  by (induction c) (auto simp: cache_remove_def)

lemma map_of_cache_getitem:
  "cache_getitem c k = Some (v, c') \<Longrightarrow> map_of c' = map_of c"
  by (auto simp: cache_getitem_def map_of_cache_remove fun_eq_iff map_add_def
           split: option.splits)

lemma map_of_cache_field: "map_of (snd (cache_field c vm_id key)) = map_of c"
  by (auto simp: cache_field_def dest: map_of_cache_getitem split: option.splits)

lemma map_of_get_vsphere_return:
  "map_of (snd (get_vsphere_return logger c vm_id)) = map_of c"
proof -
  obtain r0 c0 where s0:
    "(if logger then cache_field c vm_id ''hostname'' else (Inr PyNone, c)) = (r0, c0)"
    by (cases "if logger then cache_field c vm_id ''hostname'' else (Inr PyNone, c)")
  obtain r1 c1 where s1: "cache_field c0 vm_id ''hostname'' = (r1, c1)"
    by (cases "cache_field c0 vm_id ''hostname''")
  obtain r2 c2 where s2: "cache_field c1 vm_id ''username'' = (r2, c2)"
    by (cases "cache_field c1 vm_id ''username''")
  obtain r3 c3 where s3: "cache_field c2 vm_id ''password'' = (r3, c3)"
    by (cases "cache_field c2 vm_id ''password''")
  obtain r4 c4 where s4: "cache_field c3 vm_id ''port'' = (r4, c4)"
    by (cases "cache_field c3 vm_id ''port''")
  have m0: "map_of c0 = map_of c"
    using s0 map_of_cache_field [of c vm_id "''hostname''"] by (cases logger) auto
  have m1: "map_of c1 = map_of c"
    using s1 m0 map_of_cache_field [of c0 vm_id "''hostname''"] by simp
  have m2: "map_of c2 = map_of c"
    using s2 m1 map_of_cache_field [of c1 vm_id "''username''"] by simp
  have m3: "map_of c3 = map_of c"
    using s3 m2 map_of_cache_field [of c2 vm_id "''password''"] by simp
  have m4: "map_of c4 = map_of c"
    using s4 m3 map_of_cache_field [of c3 vm_id "''port''"] by simp
  show ?thesis
    unfolding get_vsphere_return_def s0
    by (cases r0; cases r1; cases r2; cases r3; cases r4)
       (simp_all add: s1 s2 s3 s4 m0 m1 m2 m3 m4)
qed

lemma map_of_drop_None: "map_of c k = None \<Longrightarrow> map_of (drop n c) k = None"
  by (induction c arbitrary: n) (auto simp: drop_Cons split: nat.splits if_splits)

lemma map_of_cache_setitem: "map_of (cache_setitem c k v) k = Some v"
  by (simp add: cache_setitem_def cache_contains_def map_add_def map_of_cache_remove
        map_of_drop_None split: option.splits)

lemma cache_contains_map_of: "cache_contains c k \<longleftrightarrow> map_of c k \<noteq> None"
  by (simp add: cache_contains_def split: option.splits)

lemma get_vsphere_cache_map_of:
  "vapp_get_vm_id env vm_name = Inr vm_id \<Longrightarrow> \<not> cache_contains c vm_id \<Longrightarrow>
   get_vsphere_miss env cfg vm_name = (Inr item, tr) \<Longrightarrow>
   map_of (fst (snd (get_vsphere env cfg logger c vm_name))) vm_id = Some item"
  using map_of_get_vsphere_return [of logger "cache_setitem c vm_id item" vm_id]
  by (cases "get_vsphere_return logger (cache_setitem c vm_id item) vm_id")
     (simp add: get_vsphere_def map_of_cache_setitem)

text \<open>
  What holds of the five steps of the chain. A call of \<^verbatim>\<open>get_vsphere\<close> for a VM id
  that is not in the cache: when a step of the resolution chain raises (the login, the
  lookup of the VM in the new session, the name of its vCenter, the query for the
  vCenter, the parsing of its URL), the call raises and the cache afterwards is the cache
  before, so it holds no entry for the VM id. Conversely, the cache holds an entry for
  the VM id afterwards only if every step has succeeded, and the entry is then the
  dictionary that the loop over the table of credentials has left, stored by the one
  assignment of line 597.
\<close>

lemma get_vsphere_failed_chain_keeps_cache:
  assumes vm: "vapp_get_vm_id env vm_name = Inr vm_id"
      and miss: "\<not> cache_contains c vm_id"
  shows "(set_credentials env (vcd cfg) = Inl e
          \<or> sys_get_vm env vm_name = Inl e
          \<or> (\<exists>vm. sys_get_vm env vm_name = Inr vm \<and> get_vc env vm = Inl e)
          \<or> (\<exists>vm vcn. sys_get_vm env vm_name = Inr vm \<and> get_vc env vm = Inr vcn
                \<and> get_vcenter_url env vcn = Inl e)
          \<or> (\<exists>vm vcn url. sys_get_vm env vm_name = Inr vm \<and> get_vc env vm = Inr vcn
                \<and> get_vcenter_url env vcn = Inr url \<and> urlparse env url = Inl e)
          \<longrightarrow> (\<exists>e'. fst (get_vsphere env cfg logger c vm_name) = Inl e')
              \<and> fst (snd (get_vsphere env cfg logger c vm_name)) = c
              \<and> \<not> cache_contains (fst (snd (get_vsphere env cfg logger c vm_name))) vm_id)
     \<and> (cache_contains (fst (snd (get_vsphere env cfg logger c vm_name))) vm_id
          \<longrightarrow> (\<exists>vm vcn url pu.
                 set_credentials env (vcd cfg) = Inr ()
               \<and> sys_get_vm env vm_name = Inr vm
               \<and> get_vc env vm = Inr vcn
               \<and> get_vcenter_url env vcn = Inr url
               \<and> urlparse env url = Inr pu
               \<and> map_of (fst (snd (get_vsphere env cfg logger c vm_name))) vm_id =
                   Some (vcs_loop (vcs cfg) vcn
                           [(''hostname'', opt_str (url_hostname pu)),
                            (''port'', opt_int (url_port pu))])))"
proof (intro conjI impI)
  assume fails: "set_credentials env (vcd cfg) = Inl e
          \<or> sys_get_vm env vm_name = Inl e
          \<or> (\<exists>vm. sys_get_vm env vm_name = Inr vm \<and> get_vc env vm = Inl e)
          \<or> (\<exists>vm vcn. sys_get_vm env vm_name = Inr vm \<and> get_vc env vm = Inr vcn
                \<and> get_vcenter_url env vcn = Inl e)
          \<or> (\<exists>vm vcn url. sys_get_vm env vm_name = Inr vm \<and> get_vc env vm = Inr vcn
                \<and> get_vcenter_url env vcn = Inr url \<and> urlparse env url = Inl e)"
  then have "\<exists>e' tr. get_vsphere_miss env cfg vm_name = (Inl e', tr)"
    by (auto simp: get_vsphere_miss_def Let_def split: sum.splits)
  then obtain e' tr where m: "get_vsphere_miss env cfg vm_name = (Inl e', tr)"
    by blast
  have g: "get_vsphere env cfg logger c vm_name = (Inl e', c, VappGetVm vm_name # tr)"
    using vm miss m by (simp add: get_vsphere_def)
  show "\<exists>e'. fst (get_vsphere env cfg logger c vm_name) = Inl e'"
    using g by simp
  show "fst (snd (get_vsphere env cfg logger c vm_name)) = c"
    using g by simp
  show "\<not> cache_contains (fst (snd (get_vsphere env cfg logger c vm_name))) vm_id"
    using g miss by simp
next
  assume held: "cache_contains (fst (snd (get_vsphere env cfg logger c vm_name))) vm_id"
  obtain r tr where m: "get_vsphere_miss env cfg vm_name = (r, tr)"
    by (cases "get_vsphere_miss env cfg vm_name")
  show "\<exists>vm vcn url pu.
                 set_credentials env (vcd cfg) = Inr ()
               \<and> sys_get_vm env vm_name = Inr vm
               \<and> get_vc env vm = Inr vcn
               \<and> get_vcenter_url env vcn = Inr url
               \<and> urlparse env url = Inr pu
               \<and> map_of (fst (snd (get_vsphere env cfg logger c vm_name))) vm_id =
                   Some (vcs_loop (vcs cfg) vcn
                           [(''hostname'', opt_str (url_hostname pu)),
                            (''port'', opt_int (url_port pu))])"
  proof (cases r)
    case (Inl e')
    then have "fst (snd (get_vsphere env cfg logger c vm_name)) = c"
      using vm miss m by (simp add: get_vsphere_def)
    with held miss show ?thesis by simp
  next
    case (Inr item)
    then have stored: "map_of (fst (snd (get_vsphere env cfg logger c vm_name))) vm_id = Some item"
      using get_vsphere_cache_map_of [OF vm miss] m by simp
    from m Inr show ?thesis
      unfolding stored
      by (auto simp: get_vsphere_miss_def Let_def split: sum.splits)
  qed
qed


text \<open>
  On the example platform: the query for the vCenter \<open>vc9\<close> fails and leaves the empty
  cache empty; with the vCenter \<open>vc2\<close>, which the table names, the chain succeeds and an
  entry with the four keys is stored.
\<close>

lemma get_vsphere_failed_chain_keeps_cache_example:
  "fst (get_vsphere (example_env True ''vc9'') example_config False [] ''node-1'')
     = Inl EntityNotFoundException
   \<and> fst (snd (get_vsphere (example_env True ''vc9'') example_config False [] ''node-1'')) = []
   \<and> map_of (fst (snd (get_vsphere (example_env True ''vc2'') example_config False [] ''node-1'')))
        ''urn:vcloud:vm:1''
       = Some [(''hostname'', PyStr ''vc2.example.com''), (''port'', PyInt 443),
               (''username'', PyStr ''u2''), (''password'', PyStr ''p2'')]"
proof -
  have vm: "vapp_get_vm_id (example_env True v) ''node-1'' = Inr ''urn:vcloud:vm:1''" for v
    by (simp add: example_env_def)
  have miss: "\<not> cache_contains ([] :: (string, (string \<times> pyval) list) lru_cache) ''urn:vcloud:vm:1''"
    by (simp add: cache_contains_def)
  have fails: "\<exists>vm vcn. sys_get_vm (example_env True ''vc9'') ''node-1'' = Inr vm
      \<and> get_vc (example_env True ''vc9'') vm = Inr vcn
      \<and> get_vcenter_url (example_env True ''vc9'') vcn = Inl EntityNotFoundException"
    by (simp add: example_env_def)
  have held: "cache_contains
      (fst (snd (get_vsphere (example_env True ''vc2'') example_config False [] ''node-1'')))
      ''urn:vcloud:vm:1''"
    by (simp add: get_vsphere_def get_vsphere_miss_def get_vsphere_return_def cache_field_def
          cache_getitem_def cache_setitem_def cache_remove_def cache_contains_def
          example_env_def example_config_def opt_str_def opt_int_def maxsize_def)
  from get_vsphere_failed_chain_keeps_cache
         [OF vm miss, where cfg = example_config and e = EntityNotFoundException
            and logger = False and v1 = "''vc9''"] fails
  have a: "(\<exists>e'. fst (get_vsphere (example_env True ''vc9'') example_config False [] ''node-1'') = Inl e')
      \<and> fst (snd (get_vsphere (example_env True ''vc9'') example_config False [] ''node-1'')) = []"
    by blast
  from get_vsphere_failed_chain_keeps_cache
         [OF vm miss, where cfg = example_config and e = EntityNotFoundException
            and logger = False and v1 = "''vc2''"] held
  have b: "\<exists>vm vcn url pu.
                 get_vc (example_env True ''vc2'') vm = Inr vcn
               \<and> urlparse (example_env True ''vc2'') url = Inr pu
               \<and> get_vcenter_url (example_env True ''vc2'') vcn = Inr url
               \<and> map_of (fst (snd (get_vsphere (example_env True ''vc2'') example_config False [] ''node-1''))) ''urn:vcloud:vm:1'' =
                   Some (vcs_loop (vcs example_config) vcn
                           [(''hostname'', opt_str (url_hostname pu)),
                            (''port'', opt_int (url_port pu))])"
    by blast
  have b': "map_of (fst (snd (get_vsphere (example_env True ''vc2'') example_config False [] ''node-1''))) ''urn:vcloud:vm:1''
       = Some [(''hostname'', PyStr ''vc2.example.com''), (''port'', PyInt 443),
               (''username'', PyStr ''u2''), (''password'', PyStr ''p2'')]"
    using b by (auto simp: example_env_def example_config_def opt_str_def opt_int_def)
  have a': "fst (get_vsphere (example_env True ''vc9'') example_config False [] ''node-1'')
     = Inl EntityNotFoundException"
    using a by (simp add: get_vsphere_def get_vsphere_miss_def example_env_def cache_contains_def)
  show ?thesis using a a' b' by simp
qed

text \<open>
  Claim C2, at a configuration whose table names \<open>vc1\<close> and \<open>vc2\<close> while the VM is
  managed by \<open>vc3\<close>. The claim lets an entry be written only as a whole record, and a
  call that fails leave no entry, full or partial, under the VM id. Here the call fails
  with \<^verbatim>\<open>KeyError\<close>, and the cache, empty before, holds under the VM id a dictionary
  with \<^verbatim>\<open>hostname\<close> and \<^verbatim>\<open>port\<close> and with neither \<^verbatim>\<open>username\<close> nor
  \<^verbatim>\<open>password\<close>: the assignment of line 597 comes before the reads of line 602.
\<close>

theorem get_vsphere_failed_call_leaves_partial_entry:
  "fst (get_vsphere (example_env True ''vc3'') example_config False [] ''node-1'')
     = Inl (KeyError ''username'')
   \<and> cache_contains
        (fst (snd (get_vsphere (example_env True ''vc3'') example_config False [] ''node-1'')))
        ''urn:vcloud:vm:1''
   \<and> map_of
        (fst (snd (get_vsphere (example_env True ''vc3'') example_config False [] ''node-1'')))
        ''urn:vcloud:vm:1''
       = Some [(''hostname'', PyStr ''vc3.example.com''), (''port'', PyInt 443)]
   \<and> map_of [(''hostname'', PyStr ''vc3.example.com''), (''port'', PyInt 443)] ''username''
       = None
   \<and> map_of [(''hostname'', PyStr ''vc3.example.com''), (''port'', PyInt 443)] ''password''
       = None"
  by (simp add: get_vsphere_def get_vsphere_miss_def get_vsphere_return_def cache_field_def
        cache_getitem_def cache_setitem_def cache_remove_def cache_contains_def
        example_env_def example_config_def opt_str_def opt_int_def maxsize_def)

section \<open>The capacity of the cache\<close>

lemma length_cache_remove: "length (cache_remove c k) \<le> length c"
  by (simp add: cache_remove_def)

lemma length_cache_remove_less:
  "cache_contains c k \<Longrightarrow> length (cache_remove c k) < length c"
proof -
  assume "cache_contains c k"
  then obtain v where "map_of c k = Some v"
    by (auto simp: cache_contains_def split: option.splits)
  then have "(k, v) \<in> set c" by (rule map_of_SomeD)
  then have "length (filter (\<lambda>p. fst p \<noteq> k) c) < length c"
    by (rule length_filter_less) simp
  then show ?thesis
    by (simp add: cache_remove_def)
qed

lemma length_cache_setitem: "length (cache_setitem c k v) \<le> max (length c) maxsize"
  using length_cache_remove_less [of c k]
  by (auto simp: cache_setitem_def maxsize_def)

lemma length_cache_getitem:
  "cache_getitem c k = Some (v, c') \<Longrightarrow> length c' \<le> length c"
  using length_cache_remove_less [of c k]
  by (auto simp: cache_getitem_def cache_contains_def split: option.splits)

lemma length_cache_apply: "length (cache_apply c x) \<le> max (length c) maxsize"
proof (cases x)
  case (Getitem k)
  then show ?thesis
    using length_cache_getitem [of c k]
    by (auto split: option.splits simp: max_def)
next
  case (Setitem k v)
  then show ?thesis by (simp add: length_cache_setitem)
qed

lemma length_foldl_cache_apply:
  "length c \<le> maxsize \<Longrightarrow> length (foldl cache_apply c ops) \<le> maxsize"
proof (induction ops arbitrary: c)
  case Nil
  then show ?case by simp
next
  case (Cons x ops)
  have "length (cache_apply c x) \<le> maxsize"
    using length_cache_apply [of c x] Cons.prems by simp
  then show ?case using Cons.IH by simp
qed

lemma map_fst_cache_remove: "map fst (cache_remove c k) = filter (\<lambda>x. x \<noteq> k) (map fst c)"
  by (simp add: cache_remove_def filter_map comp_def)

lemma distinct_cache_remove_snoc:
  "distinct (map fst c) \<Longrightarrow> distinct (map fst (cache_remove c k @ [(k, v)]))"
  by (simp add: map_fst_cache_remove)

lemma not_contains_iff: "\<not> cache_contains c k \<longleftrightarrow> k \<notin> fst ` set c"
proof -
  have "\<not> cache_contains c k \<longleftrightarrow> map_of c k = None"
    by (simp add: cache_contains_def split: option.splits)
  then show ?thesis by (simp add: map_of_eq_None_iff)
qed

lemma distinct_cache_setitem:
  "distinct (map fst c) \<Longrightarrow> distinct (map fst (cache_setitem c k v))"
proof (cases "cache_contains c k")
  case True
  assume "distinct (map fst c)"
  then show ?thesis using True by (simp add: cache_setitem_def map_fst_cache_remove)
next
  case False
  assume d: "distinct (map fst c)"
  have "k \<notin> fst ` set (drop (Suc (length c) - maxsize) c)"
    using False by (auto simp: not_contains_iff dest: in_set_dropD)
  moreover have "distinct (map fst (drop (Suc (length c) - maxsize) c))"
    using d by (simp add: drop_map [symmetric])
  ultimately show ?thesis using False by (simp add: cache_setitem_def)
qed

lemma distinct_cache_apply:
  "distinct (map fst c) \<Longrightarrow> distinct (map fst (cache_apply c x))"
  by (cases x)
     (auto simp: cache_getitem_def map_fst_cache_remove distinct_cache_setitem
           split: option.splits)

lemma distinct_foldl_cache_apply:
  "distinct (map fst c) \<Longrightarrow> distinct (map fst (foldl cache_apply c ops))"
  by (induction ops arbitrary: c) (simp_all add: distinct_cache_apply)

lemma length_cache_field: "length (snd (cache_field c vm_id key)) \<le> length c"
  using length_cache_getitem [of c vm_id]
  by (auto simp: cache_field_def split: option.splits)

lemma length_get_vsphere_return:
  "length (snd (get_vsphere_return logger c vm_id)) \<le> length c"
proof -
  obtain r0 c0 where s0:
    "(if logger then cache_field c vm_id ''hostname'' else (Inr PyNone, c)) = (r0, c0)"
    by (cases "if logger then cache_field c vm_id ''hostname'' else (Inr PyNone, c)")
  obtain r1 c1 where s1: "cache_field c0 vm_id ''hostname'' = (r1, c1)"
    by (cases "cache_field c0 vm_id ''hostname''")
  obtain r2 c2 where s2: "cache_field c1 vm_id ''username'' = (r2, c2)"
    by (cases "cache_field c1 vm_id ''username''")
  obtain r3 c3 where s3: "cache_field c2 vm_id ''password'' = (r3, c3)"
    by (cases "cache_field c2 vm_id ''password''")
  obtain r4 c4 where s4: "cache_field c3 vm_id ''port'' = (r4, c4)"
    by (cases "cache_field c3 vm_id ''port''")
  have m0: "length c0 \<le> length c"
    using s0 length_cache_field [of c vm_id "''hostname''"] by (cases logger) auto
  have m1: "length c1 \<le> length c"
    using s1 m0 length_cache_field [of c0 vm_id "''hostname''"] by simp
  have m2: "length c2 \<le> length c"
    using s2 m1 length_cache_field [of c1 vm_id "''username''"] by simp
  have m3: "length c3 \<le> length c"
    using s3 m2 length_cache_field [of c2 vm_id "''password''"] by simp
  have m4: "length c4 \<le> length c"
    using s4 m3 length_cache_field [of c3 vm_id "''port''"] by simp
  show ?thesis
    unfolding get_vsphere_return_def s0
    by (cases r0; cases r1; cases r2; cases r3; cases r4)
       (simp_all add: s1 s2 s3 s4 m0 m1 m2 m3 m4)
qed

lemma length_get_vsphere:
  "length c \<le> maxsize \<Longrightarrow> length (fst (snd (get_vsphere env cfg logger c vm_name))) \<le> maxsize"
proof -
  assume b: "length c \<le> maxsize"
  have hit: "length c' \<le> maxsize" if "get_vsphere_return logger c k = (r, c')" for k r c'
    using length_get_vsphere_return [of logger c k] b that by simp
  have miss: "length c' \<le> maxsize"
    if "get_vsphere_return logger (cache_setitem c k item) k = (r, c')" for k item r c'
    using length_get_vsphere_return [of logger "cache_setitem c k item" k]
          length_cache_setitem [of c k item] b that by simp
  show ?thesis
    unfolding get_vsphere_def
    using b
    by (auto split: sum.splits prod.splits dest: hit miss)
qed

text \<open>
  Claim C4. The cache never holds more than 1024 entries: whatever reads and writes are
  applied to the empty cache, it has at most 1024 entries, all of different keys, and a
  call of \<^verbatim>\<open>get_vsphere\<close> keeps the bound. Writing a key that is not in a cache of
  1024 entries drops the first entry, the least recently used one, and nothing else: the
  evicted key is gone and every other key keeps its entry. The order is the order of
  access: a read moves its key to the end, the most recently used position.
\<close>

theorem cache_never_exceeds_capacity:
  "length (cache_run ops) \<le> 1024
   \<and> distinct (map fst (cache_run ops))
   \<and> (length c \<le> 1024 \<longrightarrow>
        length (fst (snd (get_vsphere env cfg logger c vm_name))) \<le> 1024)
   \<and> (length d = 1024 \<and> distinct (map fst d) \<and> \<not> cache_contains d k \<longrightarrow>
        cache_setitem d k v = tl d @ [(k, v)]
      \<and> \<not> cache_contains (cache_setitem d k v) (fst (hd d))
      \<and> (\<forall>k'. k' \<noteq> fst (hd d) \<longrightarrow> k' \<noteq> k \<longrightarrow>
             map_of (cache_setitem d k v) k' = map_of d k'))
   \<and> (cache_getitem d k = Some (w, d') \<longrightarrow>
        map fst d' = filter (\<lambda>x. x \<noteq> k) (map fst d) @ [k])"
proof (intro conjI impI)
  show "length (cache_run ops) \<le> 1024"
    using length_foldl_cache_apply [of "[]" ops] by (simp add: cache_run_def maxsize_def)
  show "distinct (map fst (cache_run ops))"
    using distinct_foldl_cache_apply [of "[]" ops] by (simp add: cache_run_def)
next
  assume "length c \<le> 1024"
  then show "length (fst (snd (get_vsphere env cfg logger c vm_name))) \<le> 1024"
    using length_get_vsphere [of c env cfg logger vm_name] by (simp add: maxsize_def)
next
  assume h: "length d = 1024 \<and> distinct (map fst d) \<and> \<not> cache_contains d k"
  then obtain p ps where d: "d = p # ps" by (cases d) auto
  show eq: "cache_setitem d k v = tl d @ [(k, v)]"
    using h by (simp add: cache_setitem_def maxsize_def drop_Suc)
  have nk: "fst p \<noteq> k" using h d by (auto simp: not_contains_iff)
  have np: "fst p \<notin> fst ` set ps" using h d by auto
  show "\<not> cache_contains (cache_setitem d k v) (fst (hd d))"
    unfolding eq using nk np d by (auto simp: not_contains_iff)
  show "\<forall>k'. k' \<noteq> fst (hd d) \<longrightarrow> k' \<noteq> k \<longrightarrow>
             map_of (cache_setitem d k v) k' = map_of d k'"
    unfolding eq using d by (auto simp: map_add_def split: option.splits)
next
  assume "cache_getitem d k = Some (w, d')"
  then show "map fst d' = filter (\<lambda>x. x \<noteq> k) (map fst d) @ [k]"
    by (auto simp: cache_getitem_def map_fst_cache_remove split: option.splits)
qed

section \<open>The cache at its capacity\<close>

lemma cache_contains_upt:
  "cache_contains (map (\<lambda>i. (i, v)) [0..<n]) k \<longleftrightarrow> k < n"
  using not_contains_iff [of "map (\<lambda>i. (i, v)) [0..<n]" k]
  by (auto simp: image_image)

text \<open>
  The theorem on the cache with the keys 0 to 1023: writing the key 1024 evicts the key 0.
\<close>

theorem cache_never_exceeds_capacity_witness:
  "length (map (\<lambda>i. (i, ())) [0..<1024]) = 1024
   \<and> cache_setitem (map (\<lambda>i. (i, ())) [0..<1024]) 1024 ()
       = tl (map (\<lambda>i. (i, ())) [0..<1024]) @ [(1024, ())]
   \<and> \<not> cache_contains (cache_setitem (map (\<lambda>i. (i, ())) [0..<1024]) 1024 ()) 0
   \<and> length (fst (snd (get_vsphere (example_env True ''vc1'') example_config False []
              ''node-1''))) \<le> 1024
   \<and> cache_getitem [(0::nat, ()), (1, ())] 0 = Some ((), [(1, ()), (0, ())])
   \<and> map fst [(1::nat, ()), (0, ())] = filter (\<lambda>x. x \<noteq> 0) (map fst [(0::nat, ()), (1, ())]) @ [0]"
proof -
  let ?d = "map (\<lambda>i. (i, ())) [0..<(1024::nat)]"
  have l: "length ?d = 1024" by simp
  have di: "distinct (map fst ?d)" by (simp add: comp_def)
  have nc: "\<not> cache_contains ?d 1024" by (simp add: cache_contains_upt)
  have hd: "fst (hd ?d) = 0" by (simp add: hd_map upt_rec [of 0 1024])
  have e: "length ([] :: (string, (string \<times> pyval) list) lru_cache) \<le> 1024" by simp
  note t = cache_never_exceeds_capacity
            [where d = ?d and k = 1024 and v = "()" and c = "[]"
               and env = "example_env True ''vc1''" and cfg = example_config
               and logger = False and vm_name = "''node-1''"
               and ops = "[Setitem (0::nat) ()]"]
  note ev = t [THEN conjunct2, THEN conjunct2, THEN conjunct2, THEN conjunct1, THEN mp,
               OF conjI [OF l conjI [OF di nc]]]
  have r: "cache_getitem [(0::nat, ()), (1, ())] 0 = Some ((), [(1, ()), (0, ())])"
    by (simp add: cache_getitem_def cache_remove_def)
  have o: "map fst [(1::nat, ()), (0, ())]
             = filter (\<lambda>x. x \<noteq> 0) (map fst [(0::nat, ()), (1, ())]) @ [0]"
    using cache_never_exceeds_capacity
            [where d = "[(0::nat, ()), (1, ())]" and k = 0 and w = "()"
               and d' = "[(1::nat, ()), (0, ())]", THEN conjunct2, THEN conjunct2,
             THEN conjunct2, THEN conjunct2] r
    by (rule mp)
  have a: "cache_setitem ?d 1024 () = tl ?d @ [(1024, ())]"
    using ev by (rule conjunct1)
  have b: "\<not> cache_contains (cache_setitem ?d 1024 ()) 0"
    using ev [THEN conjunct2, THEN conjunct1] unfolding hd .
  have g: "length (fst (snd (get_vsphere (example_env True ''vc1'') example_config False []
              ''node-1''))) \<le> 1024"
    using t [THEN conjunct2, THEN conjunct2, THEN conjunct1] e by (rule mp)
  show ?thesis
    using l a b g r o by (intro conjI)
qed

section \<open>The credentials of the vCenter\<close>

lemma cache_field_hit:
  "map_of c vm_id = Some item \<Longrightarrow>
   cache_field c vm_id key =
     (case map_of item key of None \<Rightarrow> Inl (KeyError key) | Some v \<Rightarrow> Inr v,
      cache_remove c vm_id @ [(vm_id, item)])"
  by (simp add: cache_field_def cache_getitem_def split: option.splits)

lemma map_of_touch:
  "map_of c vm_id = Some item \<Longrightarrow> map_of (cache_remove c vm_id @ [(vm_id, item)]) vm_id = Some item"
  by (simp add: map_add_def map_of_cache_remove)

lemma fst_get_vsphere_return:
  assumes "map_of c vm_id = Some item"
  shows "fst (get_vsphere_return logger c vm_id) =
     (case map_of item ''hostname'' of
        None \<Rightarrow> Inl (KeyError ''hostname'')
      | Some h \<Rightarrow>
     (case map_of item ''username'' of
        None \<Rightarrow> Inl (KeyError ''username'')
      | Some u \<Rightarrow>
     (case map_of item ''password'' of
        None \<Rightarrow> Inl (KeyError ''password'')
      | Some p \<Rightarrow>
     (case map_of item ''port'' of
        None \<Rightarrow> Inl (KeyError ''port'')
      | Some q \<Rightarrow> Inr (VSphere h u p q)))))"
proof -
  let ?t = "\<lambda>c. cache_remove c vm_id @ [(vm_id, item)]"
  have t1: "map_of (?t c) vm_id = Some item"
    using assms by (rule map_of_touch)
  have t2: "map_of (?t (?t c)) vm_id = Some item"
    using t1 by (rule map_of_touch)
  have t3: "map_of (?t (?t (?t c))) vm_id = Some item"
    using t2 by (rule map_of_touch)
  have t4: "map_of (?t (?t (?t (?t c)))) vm_id = Some item"
    using t3 by (rule map_of_touch)
  show ?thesis
  proof (cases logger)
    case True
    then show ?thesis
      unfolding get_vsphere_return_def
      by (simp add: cache_field_hit [OF assms] cache_field_hit [OF t1] cache_field_hit [OF t2]
            cache_field_hit [OF t3] cache_field_hit [OF t4] split: option.splits)
  next
    case False
    then show ?thesis
      unfolding get_vsphere_return_def
      by (simp add: cache_field_hit [OF assms] cache_field_hit [OF t1] cache_field_hit [OF t2]
            cache_field_hit [OF t3] split: option.splits)
  qed
qed

lemma get_vsphere_hit:
  assumes "vapp_get_vm_id env vm_name = Inr vm_id" and "map_of c vm_id = Some item"
  shows "snd (snd (get_vsphere env cfg logger c vm_name)) = [VappGetVm vm_name]"
    and "fst (get_vsphere env cfg logger c vm_name) = fst (get_vsphere_return logger c vm_id)"
proof -
  have "cache_contains c vm_id" using assms(2) by (simp add: cache_contains_def)
  then have g: "get_vsphere env cfg logger c vm_name =
      (fst (get_vsphere_return logger c vm_id), snd (get_vsphere_return logger c vm_id),
       [VappGetVm vm_name])"
    using assms(1) by (simp add: get_vsphere_def split: prod.splits)
  show "snd (snd (get_vsphere env cfg logger c vm_name)) = [VappGetVm vm_name]"
    using g by simp
  show "fst (get_vsphere env cfg logger c vm_name) = fst (get_vsphere_return logger c vm_id)"
    using g by simp
qed

lemma get_vsphere_miss_ok:
  assumes "set_credentials env (vcd cfg) = Inr ()" and "sys_get_vm env vm_name = Inr vm"
      and "get_vc env vm = Inr vcn" and "get_vcenter_url env vcn = Inr url"
      and "urlparse env url = Inr pu"
  shows "get_vsphere_miss env cfg vm_name =
     (Inr (vcs_loop (vcs cfg) vcn
             [(''hostname'', opt_str (url_hostname pu)), (''port'', opt_int (url_port pu))]),
      [Login (vcd_host (vcd cfg)) (vcd_username (vcd cfg)), SysGetVm vm_name, GetVc,
       GetVcenter vcn])"
  using assms by (simp add: get_vsphere_miss_def)

lemma get_vsphere_miss_trace:
  assumes "vapp_get_vm_id env vm_name = Inr vm_id" and "\<not> cache_contains c vm_id"
      and "get_vsphere_miss env cfg vm_name = (Inr item, tr)"
  shows "snd (snd (get_vsphere env cfg logger c vm_name)) = VappGetVm vm_name # tr"
    and "fst (get_vsphere env cfg logger c vm_name)
          = fst (get_vsphere_return logger (cache_setitem c vm_id item) vm_id)"
  using assms by (simp_all add: get_vsphere_def split: prod.splits)

lemma vcs_loop_no_match:
  "vcenter_name \<notin> vc_name ` set vs \<Longrightarrow> vcs_loop vs vcenter_name item = item"
  by (induction vs) auto

lemma vcs_loop_first_match:
  "vcenter_name \<notin> vc_name ` set pre \<Longrightarrow> vc_name vc = vcenter_name \<Longrightarrow>
   vcs_loop (pre @ vc # post) vcenter_name item =
     AList.update ''password'' (PyStr (vc_password vc))
       (AList.update ''username'' (PyStr (vc_username vc)) item)"
  by (induction pre) auto

text \<open>
  Claim C1, at a configuration whose table names \<open>vc1\<close> and \<open>vc2\<close> while the VM is
  managed by \<open>vc3\<close>: every step of the chain succeeds, the dictionary stored under the VM
  id has the keys \<^verbatim>\<open>hostname\<close> and \<^verbatim>\<open>port\<close> only, and the read of
  \<^verbatim>\<open>cache[vm_id]['username']\<close> in line 602 raises \<^verbatim>\<open>KeyError\<close>.
\<close>

theorem get_vsphere_no_matching_vc_raises:
  "get_vsphere (example_env True ''vc3'') example_config False [] ''node-1'' =
     (Inl (KeyError ''username''),
      [(''urn:vcloud:vm:1'',
        [(''hostname'', PyStr ''vc3.example.com''), (''port'', PyInt 443)])],
      [VappGetVm ''node-1'', Login ''vcd.example.com'' ''administrator'',
       SysGetVm ''node-1'', GetVc, GetVcenter ''vc3''])"
  by (simp add: get_vsphere_def get_vsphere_miss_def get_vsphere_return_def cache_field_def
        cache_getitem_def cache_setitem_def cache_remove_def cache_contains_def
        example_env_def example_config_def opt_str_def opt_int_def maxsize_def)

text \<open>
  The same for every platform and configuration: with no entry of the vCenter's name the
  call raises \<^verbatim>\<open>KeyError\<close> and leaves the two-key dictionary in the cache; with an
  entry of that name, the result carries the credentials of the first such entry.
\<close>

lemma get_vsphere_no_match:
  assumes vm: "vapp_get_vm_id env vm_name = Inr vm_id" and miss: "\<not> cache_contains c vm_id"
      and ok: "set_credentials env (vcd cfg) = Inr ()" "sys_get_vm env vm_name = Inr vm"
        "get_vc env vm = Inr vcn" "get_vcenter_url env vcn = Inr url" "urlparse env url = Inr pu"
      and none: "vcn \<notin> vc_name ` set (vcs cfg)"
  shows "fst (get_vsphere env cfg logger c vm_name) = Inl (KeyError ''username'')"
    and "map_of (fst (snd (get_vsphere env cfg logger c vm_name))) vm_id =
           Some [(''hostname'', opt_str (url_hostname pu)), (''port'', opt_int (url_port pu))]"
proof -
  let ?item = "[(''hostname'', opt_str (url_hostname pu)), (''port'', opt_int (url_port pu))]"
  have m: "get_vsphere_miss env cfg vm_name =
     (Inr ?item, [Login (vcd_host (vcd cfg)) (vcd_username (vcd cfg)), SysGetVm vm_name, GetVc,
       GetVcenter vcn])"
    using get_vsphere_miss_ok [OF ok] vcs_loop_no_match [OF none] by simp
  have s: "map_of (cache_setitem c vm_id ?item) vm_id = Some ?item"
    by (rule map_of_cache_setitem)
  show "fst (get_vsphere env cfg logger c vm_name) = Inl (KeyError ''username'')"
    unfolding get_vsphere_miss_trace(2) [OF vm miss m] fst_get_vsphere_return [OF s]
    by simp
  show "map_of (fst (snd (get_vsphere env cfg logger c vm_name))) vm_id = Some ?item"
    using get_vsphere_cache_map_of [OF vm miss m] .
qed

lemma get_vsphere_first_match:
  assumes vm: "vapp_get_vm_id env vm_name = Inr vm_id" and miss: "\<not> cache_contains c vm_id"
      and ok: "set_credentials env (vcd cfg) = Inr ()" "sys_get_vm env vm_name = Inr vm"
        "get_vc env vm = Inr vcn" "get_vcenter_url env vcn = Inr url" "urlparse env url = Inr pu"
      and first: "vcs cfg = pre @ vc # post" "vcn \<notin> vc_name ` set pre" "vc_name vc = vcn"
  shows "fst (get_vsphere env cfg logger c vm_name) =
           Inr (VSphere (opt_str (url_hostname pu)) (PyStr (vc_username vc))
                  (PyStr (vc_password vc)) (opt_int (url_port pu)))"
proof -
  let ?item = "[(''hostname'', opt_str (url_hostname pu)), (''port'', opt_int (url_port pu)),
                (''username'', PyStr (vc_username vc)), (''password'', PyStr (vc_password vc))]"
  have m: "get_vsphere_miss env cfg vm_name =
     (Inr ?item, [Login (vcd_host (vcd cfg)) (vcd_username (vcd cfg)), SysGetVm vm_name, GetVc,
       GetVcenter vcn])"
    using get_vsphere_miss_ok [OF ok] vcs_loop_first_match [OF first(2,3)] first(1) by simp
  have s: "map_of (cache_setitem c vm_id ?item) vm_id = Some ?item"
    by (rule map_of_cache_setitem)
  show ?thesis
    unfolding get_vsphere_miss_trace(2) [OF vm miss m] fst_get_vsphere_return [OF s]
    by simp
qed

section \<open>Cache hits\<close>

lemma get_vsphere_miss_fails:
  assumes "set_credentials env (vcd cfg) = Inl e
          \<or> sys_get_vm env vm_name = Inl e
          \<or> (\<exists>vm. sys_get_vm env vm_name = Inr vm \<and> get_vc env vm = Inl e)
          \<or> (\<exists>vm vcn. sys_get_vm env vm_name = Inr vm \<and> get_vc env vm = Inr vcn
                \<and> get_vcenter_url env vcn = Inl e)
          \<or> (\<exists>vm vcn url. sys_get_vm env vm_name = Inr vm \<and> get_vc env vm = Inr vcn
                \<and> get_vcenter_url env vcn = Inr url \<and> urlparse env url = Inl e)"
  shows "\<exists>e' tr. get_vsphere_miss env cfg vm_name = (Inl e', tr)"
  using assms by (auto simp: get_vsphere_miss_def Let_def split: sum.splits)

lemma get_vsphere_miss_login:
  "filter is_login (snd (get_vsphere_miss env cfg vm_name))
     = [Login (vcd_host (vcd cfg)) (vcd_username (vcd cfg))]"
  by (simp add: get_vsphere_miss_def Let_def split: sum.splits)

lemma get_vsphere_trace_of_miss:
  assumes "vapp_get_vm_id env vm_name = Inr vm_id" and "\<not> cache_contains c vm_id"
  shows "snd (snd (get_vsphere env cfg logger c vm_name))
           = VappGetVm vm_name # snd (get_vsphere_miss env cfg vm_name)"
  using assms by (simp add: get_vsphere_def split: prod.splits sum.splits)

text \<open>
  Claim C3 as it is stated fails when the first call fails: the login is rejected, nothing
  is cached, and the second call for the same VM logs in again. Two logins, one of them in
  the second call.
\<close>

theorem get_vsphere_second_call_counterexample:
  "length (filter is_login
     (snd (snd (get_vsphere (example_env False ''vc1'') example_config False [] ''node-1'')) @
      snd (snd (get_vsphere (example_env False ''vc1'') example_config False
                  (fst (snd (get_vsphere (example_env False ''vc1'') example_config False []
                               ''node-1'')))
                  ''node-1'')))) = 2
   \<and> filter is_login
        (snd (snd (get_vsphere (example_env False ''vc1'') example_config False
                  (fst (snd (get_vsphere (example_env False ''vc1'') example_config False []
                               ''node-1'')))
                  ''node-1'')))
       = [Login ''vcd.example.com'' ''administrator'']"
  by (simp add: get_vsphere_def get_vsphere_miss_def cache_contains_def
        example_env_def example_config_def)

text \<open>
  Claim C3, amended. For a VM id that is in the cache, the only call that
  \<^verbatim>\<open>get_vsphere\<close> issues is the read of the VM id from the caller's vApp: no login and
  no step of the chain. Its result depends on the cached entry alone, whatever the
  platform, the configuration and the logger are: when the entry has the four keys, it
  is the object \<^verbatim>\<open>VSphere\<close> is called for with the entry's \<^verbatim>\<open>hostname\<close>,
  \<^verbatim>\<open>username\<close>, \<^verbatim>\<open>password\<close> and \<^verbatim>\<open>port\<close> as its four positional arguments, in
  this order. For a VM id that is not in the cache and a first call whose chain succeeds,
  the first call issues the chain once and a second call for the same VM id issues the
  read of the VM id only: one login in both calls together. For a VM id that is not in
  the cache and a first call whose chain fails at one of its steps, the cache after the
  first call is the cache before it, the first call has logged in once, and a second
  call for the same VM id logs in again.
\<close>

theorem get_vsphere_cache_hit_no_chain:
  "(vapp_get_vm_id env vm_name = Inr vm_id \<and> map_of c vm_id = Some item \<longrightarrow>
        snd (snd (get_vsphere env cfg logger c vm_name)) = [VappGetVm vm_name]
      \<and> filter is_login (snd (snd (get_vsphere env cfg logger c vm_name))) = []
      \<and> (\<forall>env' cfg' logger' vm_name'.
            vapp_get_vm_id env' vm_name' = Inr vm_id \<longrightarrow>
            fst (get_vsphere env' cfg' logger' c vm_name')
              = fst (get_vsphere env cfg logger c vm_name))
      \<and> (map_of item ''hostname'' = Some h \<and> map_of item ''username'' = Some u
           \<and> map_of item ''password'' = Some p \<and> map_of item ''port'' = Some q \<longrightarrow>
          fst (get_vsphere env cfg logger c vm_name)
            = Inr (VSphere h u p q)))
   \<and> (vapp_get_vm_id env vm_name = Inr vm_id \<and> \<not> cache_contains c vm_id
      \<and> set_credentials env (vcd cfg) = Inr () \<and> sys_get_vm env vm_name = Inr vm
      \<and> get_vc env vm = Inr vcn \<and> get_vcenter_url env vcn = Inr url
      \<and> urlparse env url = Inr pu
      \<and> vapp_get_vm_id env2 vm_name2 = Inr vm_id \<longrightarrow>
        snd (snd (get_vsphere env cfg logger c vm_name))
          = [VappGetVm vm_name, Login (vcd_host (vcd cfg)) (vcd_username (vcd cfg)),
             SysGetVm vm_name, GetVc, GetVcenter vcn]
      \<and> snd (snd (get_vsphere env2 cfg2 logger2
                     (fst (snd (get_vsphere env cfg logger c vm_name))) vm_name2))
          = [VappGetVm vm_name2]
      \<and> length (filter is_login
           (snd (snd (get_vsphere env cfg logger c vm_name)) @
            snd (snd (get_vsphere env2 cfg2 logger2
                        (fst (snd (get_vsphere env cfg logger c vm_name))) vm_name2)))) = 1)
   \<and> (vapp_get_vm_id env vm_name = Inr vm_id \<and> \<not> cache_contains c vm_id
      \<and> (set_credentials env (vcd cfg) = Inl e
          \<or> sys_get_vm env vm_name = Inl e
          \<or> (\<exists>vm. sys_get_vm env vm_name = Inr vm \<and> get_vc env vm = Inl e)
          \<or> (\<exists>vm vcn. sys_get_vm env vm_name = Inr vm \<and> get_vc env vm = Inr vcn
                \<and> get_vcenter_url env vcn = Inl e)
          \<or> (\<exists>vm vcn url. sys_get_vm env vm_name = Inr vm \<and> get_vc env vm = Inr vcn
                \<and> get_vcenter_url env vcn = Inr url \<and> urlparse env url = Inl e))
      \<and> vapp_get_vm_id env2 vm_name2 = Inr vm_id \<longrightarrow>
        fst (snd (get_vsphere env cfg logger c vm_name)) = c
      \<and> filter is_login (snd (snd (get_vsphere env cfg logger c vm_name)))
          = [Login (vcd_host (vcd cfg)) (vcd_username (vcd cfg))]
      \<and> filter is_login
            (snd (snd (get_vsphere env2 cfg2 logger2
                         (fst (snd (get_vsphere env cfg logger c vm_name))) vm_name2)))
          = [Login (vcd_host (vcd cfg2)) (vcd_username (vcd cfg2))])"
proof (intro conjI impI allI; (elim conjE)?)
  assume vm: "vapp_get_vm_id env vm_name = Inr vm_id" and hit: "map_of c vm_id = Some item"
  show t: "snd (snd (get_vsphere env cfg logger c vm_name)) = [VappGetVm vm_name]"
    using get_vsphere_hit(1) [OF vm hit] .
  show "filter is_login (snd (snd (get_vsphere env cfg logger c vm_name))) = []"
    unfolding t by simp
  {
    fix env' :: "'b vcd_env" and cfg' logger' vm_name'
    assume vm': "vapp_get_vm_id env' vm_name' = Inr vm_id"
    show "fst (get_vsphere env' cfg' logger' c vm_name')
              = fst (get_vsphere env cfg logger c vm_name)"
      unfolding get_vsphere_hit(2) [OF vm hit] get_vsphere_hit(2) [OF vm' hit]
        fst_get_vsphere_return [OF hit] ..
  }
  {
    assume "map_of item ''hostname'' = Some h" "map_of item ''username'' = Some u"
      "map_of item ''password'' = Some p" "map_of item ''port'' = Some q"
    then show "fst (get_vsphere env cfg logger c vm_name)
            = Inr (VSphere h u p q)"
      unfolding get_vsphere_hit(2) [OF vm hit] fst_get_vsphere_return [OF hit] by simp
  }
next
  assume vm: "vapp_get_vm_id env vm_name = Inr vm_id" and miss: "\<not> cache_contains c vm_id"
    and ok: "set_credentials env (vcd cfg) = Inr ()" "sys_get_vm env vm_name = Inr vm"
      "get_vc env vm = Inr vcn" "get_vcenter_url env vcn = Inr url" "urlparse env url = Inr pu"
    and vm2: "vapp_get_vm_id env2 vm_name2 = Inr vm_id"
  note m = get_vsphere_miss_ok [OF ok]
  show t1: "snd (snd (get_vsphere env cfg logger c vm_name))
          = [VappGetVm vm_name, Login (vcd_host (vcd cfg)) (vcd_username (vcd cfg)),
             SysGetVm vm_name, GetVc, GetVcenter vcn]"
    using get_vsphere_miss_trace(1) [OF vm miss m] .
  note stored = get_vsphere_cache_map_of [OF vm miss m, of logger]
  show t2: "snd (snd (get_vsphere env2 cfg2 logger2
                     (fst (snd (get_vsphere env cfg logger c vm_name))) vm_name2))
          = [VappGetVm vm_name2]"
    using get_vsphere_hit(1) [OF vm2 stored] .
  show "length (filter is_login
           (snd (snd (get_vsphere env cfg logger c vm_name)) @
            snd (snd (get_vsphere env2 cfg2 logger2
                        (fst (snd (get_vsphere env cfg logger c vm_name))) vm_name2)))) = 1"
    unfolding t1 t2 by simp
next
  assume vm: "vapp_get_vm_id env vm_name = Inr vm_id" and miss: "\<not> cache_contains c vm_id"
    and fails: "set_credentials env (vcd cfg) = Inl e
          \<or> sys_get_vm env vm_name = Inl e
          \<or> (\<exists>vm. sys_get_vm env vm_name = Inr vm \<and> get_vc env vm = Inl e)
          \<or> (\<exists>vm vcn. sys_get_vm env vm_name = Inr vm \<and> get_vc env vm = Inr vcn
                \<and> get_vcenter_url env vcn = Inl e)
          \<or> (\<exists>vm vcn url. sys_get_vm env vm_name = Inr vm \<and> get_vc env vm = Inr vcn
                \<and> get_vcenter_url env vcn = Inr url \<and> urlparse env url = Inl e)"
    and vm2: "vapp_get_vm_id env2 vm_name2 = Inr vm_id"
  from get_vsphere_miss_fails [OF fails]
  obtain e' tr where m: "get_vsphere_miss env cfg vm_name = (Inl e', tr)"
    by blast
  show kept: "fst (snd (get_vsphere env cfg logger c vm_name)) = c"
    using vm miss m by (simp add: get_vsphere_def)
  show "filter is_login (snd (snd (get_vsphere env cfg logger c vm_name)))
          = [Login (vcd_host (vcd cfg)) (vcd_username (vcd cfg))]"
    unfolding get_vsphere_trace_of_miss [OF vm miss]
    using get_vsphere_miss_login [of env cfg vm_name] by simp
  show "filter is_login
            (snd (snd (get_vsphere env2 cfg2 logger2
                         (fst (snd (get_vsphere env cfg logger c vm_name))) vm_name2)))
          = [Login (vcd_host (vcd cfg2)) (vcd_username (vcd cfg2))]"
    unfolding kept get_vsphere_trace_of_miss [OF vm2 miss]
    using get_vsphere_miss_login [of env2 cfg2 vm_name2] by simp
qed

text \<open>
  The theorem on the example platform: a hit on a cached entry, and two calls in sequence
  from the empty cache.
\<close>

theorem get_vsphere_cache_hit_no_chain_witness:
  "snd (snd (get_vsphere (example_env True ''vc1'') example_config False
       [(''urn:vcloud:vm:1'',
         [(''hostname'', PyStr ''vc1.example.com''), (''port'', PyInt 443),
          (''username'', PyStr ''u1''), (''password'', PyStr ''p1'')])] ''node-1''))
     = [VappGetVm ''node-1'']
   \<and> fst (get_vsphere (example_env True ''vc1'') example_config False
       [(''urn:vcloud:vm:1'',
         [(''hostname'', PyStr ''vc1.example.com''), (''port'', PyInt 443),
          (''username'', PyStr ''u1''), (''password'', PyStr ''p1'')])] ''node-1'')
     = Inr (VSphere (PyStr ''vc1.example.com'') (PyStr ''u1'') (PyStr ''p1'') (PyInt 443))
   \<and> fst (get_vsphere (example_env False ''vc9'') example_config True
       [(''urn:vcloud:vm:1'',
         [(''hostname'', PyStr ''vc1.example.com''), (''port'', PyInt 443),
          (''username'', PyStr ''u1''), (''password'', PyStr ''p1'')])] ''node-1'')
     = Inr (VSphere (PyStr ''vc1.example.com'') (PyStr ''u1'') (PyStr ''p1'') (PyInt 443))
   \<and> length (filter is_login
        (snd (snd (get_vsphere (example_env True ''vc2'') example_config False [] ''node-1'')) @
         snd (snd (get_vsphere (example_env True ''vc2'') example_config True
                (fst (snd (get_vsphere (example_env True ''vc2'') example_config False []
                             ''node-1'')))
                ''node-1'')))) = 1
   \<and> fst (snd (get_vsphere (example_env False ''vc1'') example_config False [] ''node-1'')) = []
   \<and> filter is_login
        (snd (snd (get_vsphere (example_env False ''vc1'') example_config True
                (fst (snd (get_vsphere (example_env False ''vc1'') example_config False []
                             ''node-1'')))
                ''node-1'')))
       = [Login ''vcd.example.com'' ''administrator'']"
proof -
  let ?item = "[(''hostname'', PyStr ''vc1.example.com''), (''port'', PyInt 443),
          (''username'', PyStr ''u1''), (''password'', PyStr ''p1'')]"
  let ?c = "[(''urn:vcloud:vm:1'', ?item)]"
  let ?r = "VSphere (PyStr ''vc1.example.com'') (PyStr ''u1'') (PyStr ''p1'') (PyInt 443)"
  have vm: "vapp_get_vm_id (example_env b v) ''node-1'' = Inr ''urn:vcloud:vm:1''" for b v
    by (simp add: example_env_def)
  have hit: "map_of ?c ''urn:vcloud:vm:1'' = Some ?item"
    by simp
  have fields: "map_of ?item ''hostname'' = Some (PyStr ''vc1.example.com'')
      \<and> map_of ?item ''username'' = Some (PyStr ''u1'')
      \<and> map_of ?item ''password'' = Some (PyStr ''p1'')
      \<and> map_of ?item ''port'' = Some (PyInt 443)"
    by simp
  note t = get_vsphere_cache_hit_no_chain
             [where env = "example_env True ''vc1''" and vm_name = "''node-1''"
                and vm_id = "''urn:vcloud:vm:1''" and c = ?c and item = ?item
                and cfg = example_config and logger = False
                and h = "PyStr ''vc1.example.com''" and u = "PyStr ''u1''"
                and p = "PyStr ''p1''" and q = "PyInt 443", THEN conjunct1, THEN mp,
              OF conjI [OF vm hit]]
  have a: "snd (snd (get_vsphere (example_env True ''vc1'') example_config False ?c ''node-1''))
     = [VappGetVm ''node-1'']"
    using t by (rule conjunct1)
  have b: "fst (get_vsphere (example_env True ''vc1'') example_config False ?c ''node-1'') = Inr ?r"
    using t [THEN conjunct2, THEN conjunct2, THEN conjunct2] fields by (rule mp)
  have "fst (get_vsphere (example_env False ''vc9'') example_config True ?c ''node-1'')
          = fst (get_vsphere (example_env True ''vc1'') example_config False ?c ''node-1'')"
    using t [THEN conjunct2, THEN conjunct2, THEN conjunct1, THEN spec, THEN spec, THEN spec,
             THEN spec, THEN mp, OF vm] .
  then have b': "fst (get_vsphere (example_env False ''vc9'') example_config True ?c ''node-1'')
     = Inr ?r"
    using b by simp
  have miss: "\<not> cache_contains ([] :: (string, (string \<times> pyval) list) lru_cache) ''urn:vcloud:vm:1''"
    by (simp add: cache_contains_def)
  have ok: "set_credentials (example_env True ''vc2'') (vcd example_config) = Inr ()
      \<and> sys_get_vm (example_env True ''vc2'') ''node-1'' = Inr ''vm-1''
      \<and> get_vc (example_env True ''vc2'') ''vm-1'' = Inr ''vc2''
      \<and> get_vcenter_url (example_env True ''vc2'') ''vc2'' = Inr ''https://vc2.example.com:443''
      \<and> urlparse (example_env True ''vc2'') ''https://vc2.example.com:443''
          = Inr \<lparr>url_hostname = Some ''vc2.example.com'', url_port = Some 443\<rparr>
      \<and> vapp_get_vm_id (example_env True ''vc2'') ''node-1'' = Inr ''urn:vcloud:vm:1''"
    by (simp add: example_env_def)
  have d: "length (filter is_login
        (snd (snd (get_vsphere (example_env True ''vc2'') example_config False [] ''node-1'')) @
         snd (snd (get_vsphere (example_env True ''vc2'') example_config True
                (fst (snd (get_vsphere (example_env True ''vc2'') example_config False []
                             ''node-1'')))
                ''node-1'')))) = 1"
    using get_vsphere_cache_hit_no_chain
             [where env = "example_env True ''vc2''" and vm_name = "''node-1''"
                and vm_id = "''urn:vcloud:vm:1''" and c = "[]"
                and cfg = example_config and logger = False
                and vm = "''vm-1''" and vcn = "''vc2''"
                and url = "''https://vc2.example.com:443''"
                and pu = "\<lparr>url_hostname = Some ''vc2.example.com'', url_port = Some 443\<rparr>"
                and ?env2.0 = "example_env True ''vc2''" and ?vm_name2.0 = "''node-1''"
                and ?cfg2.0 = example_config and ?logger2.0 = True,
              THEN conjunct2, THEN conjunct1, THEN mp, OF conjI [OF vm conjI [OF miss ok]],
              THEN conjunct2, THEN conjunct2] .
  have h3: "vapp_get_vm_id (example_env False ''vc1'') ''node-1'' = Inr ''urn:vcloud:vm:1''
      \<and> \<not> cache_contains ([] :: (string, (string \<times> pyval) list) lru_cache) ''urn:vcloud:vm:1''
      \<and> (set_credentials (example_env False ''vc1'') (vcd example_config)
            = Inl (OtherError ''login'')
          \<or> sys_get_vm (example_env False ''vc1'') ''node-1'' = Inl (OtherError ''login'')
          \<or> (\<exists>vm. sys_get_vm (example_env False ''vc1'') ''node-1'' = Inr vm
                \<and> get_vc (example_env False ''vc1'') vm = Inl (OtherError ''login''))
          \<or> (\<exists>vm vcn. sys_get_vm (example_env False ''vc1'') ''node-1'' = Inr vm
                \<and> get_vc (example_env False ''vc1'') vm = Inr vcn
                \<and> get_vcenter_url (example_env False ''vc1'') vcn = Inl (OtherError ''login''))
          \<or> (\<exists>vm vcn url. sys_get_vm (example_env False ''vc1'') ''node-1'' = Inr vm
                \<and> get_vc (example_env False ''vc1'') vm = Inr vcn
                \<and> get_vcenter_url (example_env False ''vc1'') vcn = Inr url
                \<and> urlparse (example_env False ''vc1'') url = Inl (OtherError ''login'')))
      \<and> vapp_get_vm_id (example_env False ''vc1'') ''node-1'' = Inr ''urn:vcloud:vm:1''"
    using vm miss by (simp add: example_env_def)
  note t3 = get_vsphere_cache_hit_no_chain
             [where env = "example_env False ''vc1''" and vm_name = "''node-1''"
                and vm_id = "''urn:vcloud:vm:1''" and c = "[]"
                and cfg = example_config and logger = False
                and e = "OtherError ''login''"
                and ?env2.0 = "example_env False ''vc1''" and ?vm_name2.0 = "''node-1''"
                and ?cfg2.0 = example_config and ?logger2.0 = True,
              THEN conjunct2, THEN conjunct2, THEN mp, OF h3]
  have f1: "fst (snd (get_vsphere (example_env False ''vc1'') example_config False []
              ''node-1'')) = []"
    using t3 by (rule conjunct1)
  have f2: "filter is_login
        (snd (snd (get_vsphere (example_env False ''vc1'') example_config True
                (fst (snd (get_vsphere (example_env False ''vc1'') example_config False []
                             ''node-1'')))
                ''node-1'')))
       = [Login ''vcd.example.com'' ''administrator'']"
    using t3 [THEN conjunct2, THEN conjunct2] by (simp add: example_config_def)
  show ?thesis
    using a b b' d f1 f2 by (intro conjI)
qed

section \<open>The catalog workflow: properties\<close>

lemma call_apply: "f s = (r, s') \<Longrightarrow> call c f (s, tr) = (r, (s', tr @ [c]))"
  by (simp add: call_def)

lemma and_then_Inr: "m w = (Inr a, w') \<Longrightarrow> and_then m f w = f a w'"
  by (simp add: and_then_def)

lemma and_then_Inl: "m w = (Inl e, w') \<Longrightarrow> and_then m f w = (Inl e, w')"
  by (simp add: and_then_def)

lemma resolve_org_trace:
  assumes "resolve_org ops org org_name (s, tr) = (r, (s1, tr1))"
  shows "tr1 = tr \<or> tr1 = tr @ [GetOrg org_name]"
  using assms
  by (auto simp: resolve_org_def get_org_def returns_def call_def
           split: option.splits prod.splits)

lemma resolve_org_filters:
  assumes "resolve_org ops org org_name (s, []) = (r, (s1, tr1))"
  shows "filter is_upload tr1 = []" and "filter is_wait tr1 = []"
    and "filter is_reload tr1 = []" and "filter is_delete tr1 = []"
  using resolve_org_trace [OF assms] by auto

lemma wait_lookup_fails:
  assumes "org_get_catalog_item ops s org cn cin = (Inl e, s2)"
  shows "wait_for_catalog_item_to_resolve ops cn cin (Some org) org_name (s, tr)
           = (Inl e, (s2, tr @ [GetCatalogItem cn cin]))"
  using assms
  by (simp add: wait_for_catalog_item_to_resolve_def resolve_org_def returns_def
        and_then_def call_def)

lemma wait_first_task:
  assumes "org_get_catalog_item ops s org cn cin = (Inr item, s2)"
      and "client_get_resource ops s2 (entity_href item) = (Inr res, s3)"
      and "tasks res = t # ts"
      and "wait_for_success ops s3 t = (r, s4)"
  shows "wait_for_catalog_item_to_resolve ops cn cin (Some org) org_name (s, tr)
           = (r, (s4, tr @ [GetCatalogItem cn cin, GetResource (entity_href item),
                            WaitForSuccess t]))"
  using assms
  by (simp add: wait_for_catalog_item_to_resolve_def resolve_org_def returns_def
        and_then_def call_def)

lemma wait_unfold_org:
  assumes "resolve_org ops org org_name w = (Inr o1, w1)"
  shows "wait_for_catalog_item_to_resolve ops cn cin org org_name w
           = wait_for_catalog_item_to_resolve ops cn cin (Some o1) None w1"
  using assms
  by (simp add: wait_for_catalog_item_to_resolve_def and_then_def resolve_org_def returns_def)

text \<open>
  Claim C8. \<^verbatim>\<open>wait_for_catalog_item_to_resolve\<close> raises what the resolution of the org
  raises, and what the lookup of the catalog item raises (the not-found error of an org,
  a catalog or an item that does not exist). When the item is found and its resource has
  the tasks \<open>t # ts\<close>, the call waits for \<open>t\<close>, the task of index 0, and for no other:
  its result is the result of that wait, success or the failure of the task, and the
  only wait among its calls is the one for \<open>t\<close>.
\<close>

theorem wait_for_catalog_item_first_task_only:
  "(resolve_org ops org org_name (s, []) = (Inl e, w1) \<longrightarrow>
      wait_for_catalog_item_to_resolve ops cn cin org org_name (s, []) = (Inl e, w1))
   \<and> (resolve_org ops org org_name (s, []) = (Inr o1, (s1, tr1)) \<longrightarrow>
       (org_get_catalog_item ops s1 o1 cn cin = (Inl e, s2) \<longrightarrow>
          wait_for_catalog_item_to_resolve ops cn cin org org_name (s, [])
            = (Inl e, (s2, tr1 @ [GetCatalogItem cn cin])))
     \<and> (org_get_catalog_item ops s1 o1 cn cin = (Inr item, s2)
          \<and> client_get_resource ops s2 (entity_href item) = (Inr res, s3)
          \<and> tasks res = t # ts
          \<and> wait_for_success ops s3 t = (r, s4) \<longrightarrow>
          wait_for_catalog_item_to_resolve ops cn cin org org_name (s, [])
            = (r, (s4, tr1 @ [GetCatalogItem cn cin, GetResource (entity_href item),
                              WaitForSuccess t]))
        \<and> filter is_wait
              (snd (snd (wait_for_catalog_item_to_resolve ops cn cin org org_name (s, []))))
            = [WaitForSuccess t]))"
proof (intro conjI impI; (elim conjE)?)
  assume "resolve_org ops org org_name (s, []) = (Inl e, w1)"
  then show "wait_for_catalog_item_to_resolve ops cn cin org org_name (s, []) = (Inl e, w1)"
    by (simp add: wait_for_catalog_item_to_resolve_def and_then_def)
next
  assume o: "resolve_org ops org org_name (s, []) = (Inr o1, (s1, tr1))"
  {
    assume "org_get_catalog_item ops s1 o1 cn cin = (Inl e, s2)"
    then show "wait_for_catalog_item_to_resolve ops cn cin org org_name (s, [])
            = (Inl e, (s2, tr1 @ [GetCatalogItem cn cin]))"
      unfolding wait_unfold_org [OF o] by (rule wait_lookup_fails)
  }
  {
    assume h: "org_get_catalog_item ops s1 o1 cn cin = (Inr item, s2)"
      "client_get_resource ops s2 (entity_href item) = (Inr res, s3)"
      "tasks res = t # ts" "wait_for_success ops s3 t = (r, s4)"
    show w: "wait_for_catalog_item_to_resolve ops cn cin org org_name (s, [])
            = (r, (s4, tr1 @ [GetCatalogItem cn cin, GetResource (entity_href item),
                              WaitForSuccess t]))"
      unfolding wait_unfold_org [OF o] using h by (rule wait_first_task)
    show "filter is_wait
              (snd (snd (wait_for_catalog_item_to_resolve ops cn cin org org_name (s, []))))
            = [WaitForSuccess t]"
      unfolding w using resolve_org_filters(2) [OF o] by simp
  }
qed

lemma upload_unfold_org:
  assumes "resolve_org ops org org_name w = (Inr o1, w1)"
  shows "upload_ova_to_catalog ops cn fp update org org_name w
           = upload_ova_to_catalog ops cn fp update (Some o1) None w1"
  using assms
  by (simp add: upload_ova_to_catalog_def and_then_def resolve_org_def returns_def Let_def)

lemma upload_item_exists:
  assumes "org_get_catalog_item ops s org cn (path_name ops fp) = (Inr item, s2)"
  shows "upload_ova_to_catalog ops cn fp False (Some org) org_name (s, tr)
           = (Inr (), (s2, tr @ [GetCatalogItem cn (path_name ops fp)]))"
  using assms
  by (simp add: upload_ova_to_catalog_def Let_def resolve_org_def returns_def and_then_def
        except_not_found_def call_def)

lemma upload_item_absent:
  assumes "org_get_catalog_item ops s org cn (path_name ops fp) = (Inl EntityNotFoundException, s2)"
      and "org_upload_ovf ops s2 org cn fp = (Inr (), s3)"
      and "org_reload ops s3 org = (Inr (), s4)"
      and "org_get_catalog_item ops s4 org cn (path_name ops fp) = (Inr item, s5)"
      and "client_get_resource ops s5 (entity_href item) = (Inr res, s6)"
      and "tasks res = t # ts"
      and "wait_for_success ops s6 t = (Inr (), s7)"
  shows "upload_ova_to_catalog ops cn fp False (Some org) org_name (s, tr)
           = (Inr (), (s7, tr @ [GetCatalogItem cn (path_name ops fp), UploadOvf cn fp, Reload,
                                 GetCatalogItem cn (path_name ops fp),
                                 GetResource (entity_href item), WaitForSuccess t]))"
  using assms
  by (simp add: upload_ova_to_catalog_def wait_for_catalog_item_to_resolve_def Let_def
        resolve_org_def returns_def and_then_def except_not_found_def call_def)

lemma upload_absent_upload_fails:
  assumes "org_get_catalog_item ops s org cn (path_name ops fp) = (Inl EntityNotFoundException, s2)"
      and "org_upload_ovf ops s2 org cn fp = (Inl e, s3)"
  shows "upload_ova_to_catalog ops cn fp False (Some org) org_name (s, tr)
           = (Inl e, (s3, tr @ [GetCatalogItem cn (path_name ops fp), UploadOvf cn fp]))"
  using assms
  by (simp add: upload_ova_to_catalog_def wait_for_catalog_item_to_resolve_def Let_def
        resolve_org_def returns_def raise_def and_then_def except_not_found_def call_def)

lemma upload_absent_reload_fails:
  assumes "org_get_catalog_item ops s org cn (path_name ops fp) = (Inl EntityNotFoundException, s2)"
      and "org_upload_ovf ops s2 org cn fp = (Inr (), s3)"
      and "org_reload ops s3 org = (Inl e, s4)"
  shows "upload_ova_to_catalog ops cn fp False (Some org) org_name (s, tr)
           = (Inl e, (s4, tr @ [GetCatalogItem cn (path_name ops fp), UploadOvf cn fp, Reload]))"
  using assms
  by (simp add: upload_ova_to_catalog_def wait_for_catalog_item_to_resolve_def Let_def
        resolve_org_def returns_def raise_def and_then_def except_not_found_def call_def)

lemma upload_absent_lookup_fails:
  assumes "org_get_catalog_item ops s org cn (path_name ops fp) = (Inl EntityNotFoundException, s2)"
      and "org_upload_ovf ops s2 org cn fp = (Inr (), s3)"
      and "org_reload ops s3 org = (Inr (), s4)"
      and "org_get_catalog_item ops s4 org cn (path_name ops fp) = (Inl e, s5)"
  shows "upload_ova_to_catalog ops cn fp False (Some org) org_name (s, tr)
           = (Inl e, (s5, tr @ [GetCatalogItem cn (path_name ops fp), UploadOvf cn fp, Reload,
                                 GetCatalogItem cn (path_name ops fp)]))"
  using assms
  by (simp add: upload_ova_to_catalog_def wait_for_catalog_item_to_resolve_def Let_def
        resolve_org_def returns_def raise_def and_then_def except_not_found_def call_def)

lemma upload_absent_resource_fails:
  assumes "org_get_catalog_item ops s org cn (path_name ops fp) = (Inl EntityNotFoundException, s2)"
      and "org_upload_ovf ops s2 org cn fp = (Inr (), s3)"
      and "org_reload ops s3 org = (Inr (), s4)"
      and "org_get_catalog_item ops s4 org cn (path_name ops fp) = (Inr item, s5)"
      and "client_get_resource ops s5 (entity_href item) = (Inl e, s6)"
  shows "upload_ova_to_catalog ops cn fp False (Some org) org_name (s, tr)
           = (Inl e, (s6, tr @ [GetCatalogItem cn (path_name ops fp), UploadOvf cn fp, Reload,
                                 GetCatalogItem cn (path_name ops fp),
                                 GetResource (entity_href item)]))"
  using assms
  by (simp add: upload_ova_to_catalog_def wait_for_catalog_item_to_resolve_def Let_def
        resolve_org_def returns_def raise_def and_then_def except_not_found_def call_def)

lemma upload_absent_no_task:
  assumes "org_get_catalog_item ops s org cn (path_name ops fp) = (Inl EntityNotFoundException, s2)"
      and "org_upload_ovf ops s2 org cn fp = (Inr (), s3)"
      and "org_reload ops s3 org = (Inr (), s4)"
      and "org_get_catalog_item ops s4 org cn (path_name ops fp) = (Inr item, s5)"
      and "client_get_resource ops s5 (entity_href item) = (Inr res, s6)"
      and "tasks res = []"
  shows "upload_ova_to_catalog ops cn fp False (Some org) org_name (s, tr)
           = (Inl AttributeError,
              (s6, tr @ [GetCatalogItem cn (path_name ops fp), UploadOvf cn fp, Reload,
                    GetCatalogItem cn (path_name ops fp), GetResource (entity_href item)]))"
  using assms
  by (simp add: upload_ova_to_catalog_def wait_for_catalog_item_to_resolve_def Let_def
        resolve_org_def returns_def raise_def and_then_def except_not_found_def call_def)

lemma upload_absent_wait_fails:
  assumes "org_get_catalog_item ops s org cn (path_name ops fp) = (Inl EntityNotFoundException, s2)"
      and "org_upload_ovf ops s2 org cn fp = (Inr (), s3)"
      and "org_reload ops s3 org = (Inr (), s4)"
      and "org_get_catalog_item ops s4 org cn (path_name ops fp) = (Inr item, s5)"
      and "client_get_resource ops s5 (entity_href item) = (Inr res, s6)"
      and "tasks res = t # ts"
      and "wait_for_success ops s6 t = (Inl e, s7)"
  shows "upload_ova_to_catalog ops cn fp False (Some org) org_name (s, tr)
           = (Inl e, (s7, tr @ [GetCatalogItem cn (path_name ops fp), UploadOvf cn fp, Reload,
                                 GetCatalogItem cn (path_name ops fp),
                                 GetResource (entity_href item), WaitForSuccess t]))"
  using assms
  by (simp add: upload_ova_to_catalog_def wait_for_catalog_item_to_resolve_def Let_def
        resolve_org_def returns_def raise_def and_then_def except_not_found_def call_def)



text \<open>
  Claim C6. With \<^verbatim>\<open>update=False\<close>, when the lookup of the item of the derived name
  finds it, the call returns without an error and its calls contain no upload. The same
  holds for a second call on the state the first one leaves, when the item is still
  found there: no second upload, and success both times.
\<close>

theorem upload_existing_item_is_skipped:
  "resolve_org ops org org_name (s, []) = (Inr o1, (s1, tr1))
     \<and> org_get_catalog_item ops s1 o1 cn (path_name ops fp) = (Inr item, s2) \<longrightarrow>
       upload_ova_to_catalog ops cn fp False org org_name (s, [])
         = (Inr (), (s2, tr1 @ [GetCatalogItem cn (path_name ops fp)]))
     \<and> filter is_upload (snd (snd (upload_ova_to_catalog ops cn fp False org org_name (s, []))))
         = []
     \<and> (resolve_org ops org org_name (s2, []) = (Inr o2, (s3, tr3))
        \<and> org_get_catalog_item ops s3 o2 cn (path_name ops fp) = (Inr item2, s4) \<longrightarrow>
          upload_ova_to_catalog ops cn fp False org org_name (s2, [])
            = (Inr (), (s4, tr3 @ [GetCatalogItem cn (path_name ops fp)]))
        \<and> filter is_upload
              (snd (snd (upload_ova_to_catalog ops cn fp False org org_name (s2, [])))) = [])"
proof (intro conjI impI; (elim conjE)?)
  assume o: "resolve_org ops org org_name (s, []) = (Inr o1, (s1, tr1))"
    and f: "org_get_catalog_item ops s1 o1 cn (path_name ops fp) = (Inr item, s2)"
  show u: "upload_ova_to_catalog ops cn fp False org org_name (s, [])
         = (Inr (), (s2, tr1 @ [GetCatalogItem cn (path_name ops fp)]))"
    unfolding upload_unfold_org [OF o] using f by (rule upload_item_exists)
  show "filter is_upload (snd (snd (upload_ova_to_catalog ops cn fp False org org_name (s, []))))
         = []"
    unfolding u using resolve_org_filters(1) [OF o] by simp
  {
    assume o2: "resolve_org ops org org_name (s2, []) = (Inr o2, (s3, tr3))"
      and f2: "org_get_catalog_item ops s3 o2 cn (path_name ops fp) = (Inr item2, s4)"
    show u2: "upload_ova_to_catalog ops cn fp False org org_name (s2, [])
            = (Inr (), (s4, tr3 @ [GetCatalogItem cn (path_name ops fp)]))"
      unfolding upload_unfold_org [OF o2] using f2 by (rule upload_item_exists)
    show "filter is_upload
              (snd (snd (upload_ova_to_catalog ops cn fp False org org_name (s2, [])))) = []"
      unfolding u2 using resolve_org_filters(1) [OF o2] by simp
  }
qed

text \<open>
  Claim C7 as it is stated fails when the platform rejects the upload: no item exists, the
  upload is tried once and raises \<^verbatim>\<open>UploadException\<close>, which leaves the function; no
  reload and no wait follow.
\<close>

theorem upload_rejected_counterexample:
  "upload_ova_to_catalog (example_ops True False) ''templates'' ''/tmp/image.ova'' False
       (Some ''org'') None ([], [])
     = (Inl UploadException,
        ([], [GetCatalogItem ''templates'' ''image.ova'',
              UploadOvf ''templates'' ''/tmp/image.ova'']))"
  by (simp add: upload_ova_to_catalog_def wait_for_catalog_item_to_resolve_def Let_def
        resolve_org_def returns_def and_then_def except_not_found_def call_def
        example_ops_def basename_def)

text \<open>
  Claim C7, amended. With \<^verbatim>\<open>update=False\<close>, when the lookup reports that no item of
  the derived name exists: if the upload, the reload, the lookup of the new item, the
  read of its resource and the wait for its first task succeed, the call issues exactly
  these calls in this order, one upload, one reload and one wait, and returns without an
  error. If one of them raises, the call raises that exception and issues no call after
  it: a rejected upload ends the call after the upload, a failed reload after the reload,
  and so on to the wait; a resource without a task raises \<^verbatim>\<open>AttributeError\<close> before
  any wait.
\<close>

theorem upload_absent_item_uploads_once:
  "resolve_org ops org org_name (s, []) = (Inr o1, (s1, tr1))
     \<and> org_get_catalog_item ops s1 o1 cn (path_name ops fp) = (Inl EntityNotFoundException, s2)
   \<longrightarrow>
     (org_upload_ovf ops s2 o1 cn fp = (Inl e, s3) \<longrightarrow>
        upload_ova_to_catalog ops cn fp False org org_name (s, []) = (Inl e, (s3, tr1 @ [GetCatalogItem cn (path_name ops fp), UploadOvf cn fp])))
   \<and> (org_upload_ovf ops s2 o1 cn fp = (Inr (), s3) \<longrightarrow>
     (org_reload ops s3 o1 = (Inl e, s4) \<longrightarrow>
        upload_ova_to_catalog ops cn fp False org org_name (s, []) = (Inl e, (s4, tr1 @ [GetCatalogItem cn (path_name ops fp), UploadOvf cn fp, Reload])))
   \<and> (org_reload ops s3 o1 = (Inr (), s4) \<longrightarrow>
     (org_get_catalog_item ops s4 o1 cn (path_name ops fp) = (Inl e, s5) \<longrightarrow>
        upload_ova_to_catalog ops cn fp False org org_name (s, []) = (Inl e, (s5, tr1 @ [GetCatalogItem cn (path_name ops fp), UploadOvf cn fp, Reload, GetCatalogItem cn (path_name ops fp)])))
   \<and> (org_get_catalog_item ops s4 o1 cn (path_name ops fp) = (Inr item, s5) \<longrightarrow>
     (client_get_resource ops s5 (entity_href item) = (Inl e, s6) \<longrightarrow>
        upload_ova_to_catalog ops cn fp False org org_name (s, []) = (Inl e, (s6, tr1 @ [GetCatalogItem cn (path_name ops fp), UploadOvf cn fp, Reload, GetCatalogItem cn (path_name ops fp),
                         GetResource (entity_href item)])))
   \<and> (client_get_resource ops s5 (entity_href item) = (Inr res, s6) \<longrightarrow>
     (tasks res = [] \<longrightarrow>
        upload_ova_to_catalog ops cn fp False org org_name (s, []) = (Inl AttributeError,
              (s6, tr1 @ [GetCatalogItem cn (path_name ops fp), UploadOvf cn fp, Reload, GetCatalogItem cn (path_name ops fp),
                   GetResource (entity_href item)])))
   \<and> (tasks res = t # ts \<longrightarrow>
     (wait_for_success ops s6 t = (Inl e, s7) \<longrightarrow>
        upload_ova_to_catalog ops cn fp False org org_name (s, []) = (Inl e, (s7, tr1 @ [GetCatalogItem cn (path_name ops fp), UploadOvf cn fp, Reload, GetCatalogItem cn (path_name ops fp),
                         GetResource (entity_href item), WaitForSuccess t])))
   \<and> (wait_for_success ops s6 t = (Inr (), s7) \<longrightarrow>
        upload_ova_to_catalog ops cn fp False org org_name (s, []) = (Inr (), (s7, tr1 @ [GetCatalogItem cn (path_name ops fp), UploadOvf cn fp, Reload, GetCatalogItem cn (path_name ops fp),
                          GetResource (entity_href item), WaitForSuccess t]))
      \<and> filter is_upload (snd (snd (upload_ova_to_catalog ops cn fp False org org_name (s, [])))) = [UploadOvf cn fp]
      \<and> filter is_reload (snd (snd (upload_ova_to_catalog ops cn fp False org org_name (s, [])))) = [Reload]
      \<and> filter is_wait (snd (snd (upload_ova_to_catalog ops cn fp False org org_name (s, [])))) = [WaitForSuccess t]))))))"
proof (intro conjI impI; (elim conjE)?)
  assume o: "resolve_org ops org org_name (s, []) = (Inr o1, (s1, tr1))"
    and n: "org_get_catalog_item ops s1 o1 cn (path_name ops fp) = (Inl EntityNotFoundException, s2)"
  note un = upload_unfold_org [OF o]
  {
    assume "org_upload_ovf ops s2 o1 cn fp = (Inl e, s3)"
    with n show "upload_ova_to_catalog ops cn fp False org org_name (s, []) = (Inl e, (s3, tr1 @ [GetCatalogItem cn (path_name ops fp), UploadOvf cn fp]))"
      unfolding un by (rule upload_absent_upload_fails)
  }
  assume u: "org_upload_ovf ops s2 o1 cn fp = (Inr (), s3)"
  {
    assume "org_reload ops s3 o1 = (Inl e, s4)"
    with n u show "upload_ova_to_catalog ops cn fp False org org_name (s, []) = (Inl e, (s4, tr1 @ [GetCatalogItem cn (path_name ops fp), UploadOvf cn fp, Reload]))"
      unfolding un by (rule upload_absent_reload_fails)
  }
  assume r: "org_reload ops s3 o1 = (Inr (), s4)"
  {
    assume "org_get_catalog_item ops s4 o1 cn (path_name ops fp) = (Inl e, s5)"
    with n u r show "upload_ova_to_catalog ops cn fp False org org_name (s, []) = (Inl e, (s5, tr1 @ [GetCatalogItem cn (path_name ops fp), UploadOvf cn fp, Reload, GetCatalogItem cn (path_name ops fp)]))"
      unfolding un by (rule upload_absent_lookup_fails)
  }
  assume l: "org_get_catalog_item ops s4 o1 cn (path_name ops fp) = (Inr item, s5)"
  {
    assume "client_get_resource ops s5 (entity_href item) = (Inl e, s6)"
    with n u r l show "upload_ova_to_catalog ops cn fp False org org_name (s, []) = (Inl e, (s6, tr1 @ [GetCatalogItem cn (path_name ops fp), UploadOvf cn fp, Reload, GetCatalogItem cn (path_name ops fp),
                         GetResource (entity_href item)]))"
      unfolding un by (rule upload_absent_resource_fails)
  }
  assume g: "client_get_resource ops s5 (entity_href item) = (Inr res, s6)"
  {
    assume "tasks res = []"
    with n u r l g show "upload_ova_to_catalog ops cn fp False org org_name (s, []) = (Inl AttributeError,
              (s6, tr1 @ [GetCatalogItem cn (path_name ops fp), UploadOvf cn fp, Reload, GetCatalogItem cn (path_name ops fp),
                   GetResource (entity_href item)]))"
      unfolding un by (rule upload_absent_no_task)
  }
  assume k: "tasks res = t # ts"
  {
    assume "wait_for_success ops s6 t = (Inl e, s7)"
    with n u r l g k show "upload_ova_to_catalog ops cn fp False org org_name (s, []) = (Inl e, (s7, tr1 @ [GetCatalogItem cn (path_name ops fp), UploadOvf cn fp, Reload, GetCatalogItem cn (path_name ops fp),
                         GetResource (entity_href item), WaitForSuccess t]))"
      unfolding un by (rule upload_absent_wait_fails)
  }
  assume w: "wait_for_success ops s6 t = (Inr (), s7)"
  show fin: "upload_ova_to_catalog ops cn fp False org org_name (s, []) = (Inr (), (s7, tr1 @ [GetCatalogItem cn (path_name ops fp), UploadOvf cn fp, Reload, GetCatalogItem cn (path_name ops fp),
                          GetResource (entity_href item), WaitForSuccess t]))"
    unfolding un using n u r l g k w by (rule upload_item_absent)
  show "filter is_upload (snd (snd (upload_ova_to_catalog ops cn fp False org org_name (s, [])))) = [UploadOvf cn fp]"
    unfolding fin using resolve_org_filters(1) [OF o] by simp
  show "filter is_reload (snd (snd (upload_ova_to_catalog ops cn fp False org org_name (s, [])))) = [Reload]"
    unfolding fin using resolve_org_filters(3) [OF o] by simp
  show "filter is_wait (snd (snd (upload_ova_to_catalog ops cn fp False org org_name (s, [])))) = [WaitForSuccess t]"
    unfolding fin using resolve_org_filters(2) [OF o] by simp
qed



lemma example_path_name: "path_name (example_ops a b) ''/tmp/image.ova'' = ''image.ova''"
  by (simp add: example_ops_def basename_def)

lemma example_resolve_none:
  "resolve_org (example_ops a b) None None (s, []) = (Inr ''org'', (s, [GetOrg None]))"
  by (simp add: resolve_org_def get_org_def call_def example_ops_def)


text \<open>
  The theorem on the example platform: an org that does not exist, an item that does not
  exist, and an item whose task succeeds.
\<close>

theorem wait_for_catalog_item_first_task_only_witness:
  "wait_for_catalog_item_to_resolve (example_ops True True) ''templates'' ''image.ova''
       None (Some ''nope'') ([''image.ova''], [])
     = (Inl EntityNotFoundException, ([''image.ova''], [GetOrg (Some ''nope'')]))
   \<and> wait_for_catalog_item_to_resolve (example_ops True True) ''templates'' ''image.ova''
       None None ([], [])
     = (Inl EntityNotFoundException,
        ([], [GetOrg None, GetCatalogItem ''templates'' ''image.ova'']))
   \<and> wait_for_catalog_item_to_resolve (example_ops True True) ''templates'' ''image.ova''
       None None ([''image.ova''], [])
     = (Inr (),
        ([''image.ova''],
         [GetOrg None, GetCatalogItem ''templates'' ''image.ova'',
          GetResource ''item/image.ova'', WaitForSuccess ''item/image.ova/task'']))"
proof -
  let ?ops = "example_ops True True"
  let ?item = "\<lparr>entity_href = ''item/image.ova''\<rparr>"
  let ?res = "\<lparr>tasks = [''item/image.ova/task'']\<rparr>"
  note th = wait_for_catalog_item_first_task_only
              [where ops = ?ops and cn = "''templates''" and cin = "''image.ova''"
                 and org = None and e = EntityNotFoundException and ?o1.0 = "''org''"
                 and item = ?item and res = ?res and t = "''item/image.ova/task''"
                 and ts = "[]" and r = "Inr ()"]
  have h1: "resolve_org ?ops None (Some ''nope'') ([''image.ova''], [])
              = (Inl EntityNotFoundException, ([''image.ova''], [GetOrg (Some ''nope'')]))"
    by (simp add: resolve_org_def get_org_def call_def example_ops_def)
  have a: "wait_for_catalog_item_to_resolve ?ops ''templates'' ''image.ova''
       None (Some ''nope'') ([''image.ova''], [])
     = (Inl EntityNotFoundException, ([''image.ova''], [GetOrg (Some ''nope'')]))"
    using th [where org_name = "Some ''nope''" and s = "[''image.ova'']"
                and ?w1.0 = "([''image.ova''], [GetOrg (Some ''nope'')])"
                and ?s1.0 = "[]" and ?tr1.0 = "[]" and ?s2.0 = "[]" and ?s3.0 = "[]"
                and ?s4.0 = "[]", THEN conjunct1, THEN mp, OF h1] .
  have h2: "org_get_catalog_item ?ops [] ''org'' ''templates'' ''image.ova''
              = (Inl EntityNotFoundException, [])"
    by (simp add: example_ops_def)
  have b: "wait_for_catalog_item_to_resolve ?ops ''templates'' ''image.ova'' None None ([], [])
     = (Inl EntityNotFoundException,
        ([], [GetOrg None, GetCatalogItem ''templates'' ''image.ova'']))"
    using th [where org_name = None and s = "[]" and ?w1.0 = "([], [])"
                and ?s1.0 = "[]" and ?tr1.0 = "[GetOrg None]" and ?s2.0 = "[]" and ?s3.0 = "[]"
                and ?s4.0 = "[]", THEN conjunct2, THEN mp, OF example_resolve_none,
              THEN conjunct1, THEN mp, OF h2]
    by simp
  have h3: "org_get_catalog_item ?ops [''image.ova''] ''org'' ''templates'' ''image.ova''
              = (Inr ?item, [''image.ova''])
          \<and> client_get_resource ?ops [''image.ova''] (entity_href ?item)
              = (Inr ?res, [''image.ova''])
          \<and> tasks ?res = [''item/image.ova/task'']
          \<and> wait_for_success ?ops [''image.ova''] ''item/image.ova/task''
              = (Inr (), [''image.ova''])"
    by (simp add: example_ops_def)
  have c: "wait_for_catalog_item_to_resolve ?ops ''templates'' ''image.ova''
       None None ([''image.ova''], [])
     = (Inr (),
        ([''image.ova''],
         [GetOrg None, GetCatalogItem ''templates'' ''image.ova'',
          GetResource ''item/image.ova'', WaitForSuccess ''item/image.ova/task'']))"
    using th [where org_name = None and s = "[''image.ova'']" and ?w1.0 = "([], [])"
                and ?s1.0 = "[''image.ova'']" and ?tr1.0 = "[GetOrg None]"
                and ?s2.0 = "[''image.ova'']" and ?s3.0 = "[''image.ova'']"
                and ?s4.0 = "[''image.ova'']", THEN conjunct2, THEN mp,
              OF example_resolve_none, THEN conjunct2, THEN mp, OF h3, THEN conjunct1]
    by simp
  show ?thesis using a b c by (intro conjI)
qed

text \<open>
  The theorem on the example platform, whose catalog holds \<open>image.ova\<close>; the state after
  the call is the state before, so the second call is the first one again.
\<close>

theorem upload_existing_item_is_skipped_witness:
  "upload_ova_to_catalog (example_ops True True) ''templates'' ''/tmp/image.ova'' False
       None None ([''image.ova''], [])
     = (Inr (), ([''image.ova''], [GetOrg None, GetCatalogItem ''templates'' ''image.ova'']))
   \<and> filter is_upload
        (snd (snd (upload_ova_to_catalog (example_ops True True) ''templates''
                     ''/tmp/image.ova'' False None None ([''image.ova''], [])))) = []"
proof -
  let ?ops = "example_ops True True"
  let ?item = "\<lparr>entity_href = ''item/image.ova''\<rparr>"
  have h: "resolve_org ?ops None None ([''image.ova''], [])
             = (Inr ''org'', ([''image.ova''], [GetOrg None]))
         \<and> org_get_catalog_item ?ops [''image.ova''] ''org'' ''templates''
               (path_name ?ops ''/tmp/image.ova'')
             = (Inr ?item, [''image.ova''])"
    by (simp add: example_resolve_none example_path_name) (simp add: example_ops_def)
  note th = upload_existing_item_is_skipped
              [where ops = ?ops and cn = "''templates''" and fp = "''/tmp/image.ova''"
                 and org = None and org_name = None and s = "[''image.ova'']"
                 and ?o1.0 = "''org''" and ?s1.0 = "[''image.ova'']" and ?tr1.0 = "[GetOrg None]"
                 and item = ?item and ?s2.0 = "[''image.ova'']"
                 and ?o2.0 = "''org''" and ?s3.0 = "[''image.ova'']" and ?tr3.0 = "[GetOrg None]"
                 and ?item2.0 = ?item and ?s4.0 = "[''image.ova'']", THEN mp, OF h]
  have a: "upload_ova_to_catalog ?ops ''templates'' ''/tmp/image.ova'' False
       None None ([''image.ova''], [])
     = (Inr (), ([''image.ova''], [GetOrg None, GetCatalogItem ''templates'' ''image.ova'']))"
    using th [THEN conjunct2, THEN conjunct2, THEN mp, OF h, THEN conjunct1]
    by (simp add: example_path_name)
  have b: "filter is_upload
        (snd (snd (upload_ova_to_catalog ?ops ''templates''
                     ''/tmp/image.ova'' False None None ([''image.ova''], [])))) = []"
    using th [THEN conjunct2, THEN conjunct1] .
  show ?thesis using a b by (intro conjI)
qed

text \<open>
  The theorem on seven platforms: one that rejects the upload, one whose reload fails, one
  that accepts the upload without the item appearing in the catalog, one whose resource
  cannot be read, one whose resource has no task, one whose task fails, and the
  scenario of the spec, where \<open>image.ova\<close> is uploaded into the empty catalog
  \<open>templates\<close>.
\<close>

theorem upload_absent_item_uploads_once_witness:
  "upload_ova_to_catalog (example_ops True False) ''templates'' ''/tmp/image.ova'' False
       (Some ''org'') None ([], [])
     = (Inl UploadException, ([], [GetCatalogItem ''templates'' ''image.ova'', UploadOvf ''templates'' ''/tmp/image.ova'']))
   \<and> upload_ova_to_catalog ((example_ops True True)\<lparr>org_reload := \<lambda>s org. (Inl (OtherError ''timeout''), s)\<rparr>) ''templates'' ''/tmp/image.ova'' False
       (Some ''org'') None ([], [])
     = (Inl (OtherError ''timeout''), ([''image.ova''], [GetCatalogItem ''templates'' ''image.ova'', UploadOvf ''templates'' ''/tmp/image.ova'', Reload]))
   \<and> upload_ova_to_catalog ((example_ops True True)\<lparr>org_upload_ovf := \<lambda>s org c f. (Inr (), s)\<rparr>) ''templates'' ''/tmp/image.ova'' False
       (Some ''org'') None ([], [])
     = (Inl EntityNotFoundException, ([], [GetCatalogItem ''templates'' ''image.ova'', UploadOvf ''templates'' ''/tmp/image.ova'', Reload, GetCatalogItem ''templates'' ''image.ova'']))
   \<and> upload_ova_to_catalog ((example_ops True True)\<lparr>client_get_resource := \<lambda>s h. (Inl (OtherError ''timeout''), s)\<rparr>) ''templates'' ''/tmp/image.ova'' False
       (Some ''org'') None ([], [])
     = (Inl (OtherError ''timeout''), ([''image.ova''], [GetCatalogItem ''templates'' ''image.ova'', UploadOvf ''templates'' ''/tmp/image.ova'', Reload, GetCatalogItem ''templates'' ''image.ova'', GetResource ''item/image.ova'']))
   \<and> upload_ova_to_catalog ((example_ops True True)\<lparr>client_get_resource := \<lambda>s h. (Inr \<lparr>tasks = []\<rparr>, s)\<rparr>) ''templates'' ''/tmp/image.ova'' False
       (Some ''org'') None ([], [])
     = (Inl AttributeError, ([''image.ova''], [GetCatalogItem ''templates'' ''image.ova'', UploadOvf ''templates'' ''/tmp/image.ova'', Reload, GetCatalogItem ''templates'' ''image.ova'', GetResource ''item/image.ova'']))
   \<and> upload_ova_to_catalog ((example_ops True True)\<lparr>wait_for_success := \<lambda>s t. (Inl VcdTaskException, s)\<rparr>) ''templates'' ''/tmp/image.ova'' False
       (Some ''org'') None ([], [])
     = (Inl VcdTaskException, ([''image.ova''], [GetCatalogItem ''templates'' ''image.ova'', UploadOvf ''templates'' ''/tmp/image.ova'', Reload, GetCatalogItem ''templates'' ''image.ova'', GetResource ''item/image.ova'', WaitForSuccess ''item/image.ova/task'']))
   \<and> upload_ova_to_catalog (example_ops True True) ''templates'' ''/tmp/image.ova'' False
       (Some ''org'') None ([], [])
     = (Inr (), ([''image.ova''], [GetCatalogItem ''templates'' ''image.ova'', UploadOvf ''templates'' ''/tmp/image.ova'', Reload, GetCatalogItem ''templates'' ''image.ova'', GetResource ''item/image.ova'', WaitForSuccess ''item/image.ova/task'']))"
proof -
  let ?p_rej = "example_ops True False"
  have rej0: "resolve_org ?p_rej (Some ''org'') None ([], []) = (Inr ''org'', ([], []))
        \<and> org_get_catalog_item ?p_rej [] ''org'' ''templates'' (path_name ?p_rej ''/tmp/image.ova'')
            = (Inl EntityNotFoundException, [])"
    by (simp add: example_ops_def basename_def resolve_org_def returns_def)
  have rej1: "org_upload_ovf ?p_rej [] ''org'' ''templates'' ''/tmp/image.ova'' = (Inl (UploadException), [])"
    by (simp add: example_ops_def basename_def)
  have rej: "upload_ova_to_catalog (?p_rej) ''templates'' ''/tmp/image.ova'' False
       (Some ''org'') None ([], [])
     = (Inl UploadException, ([], [GetCatalogItem ''templates'' ''image.ova'', UploadOvf ''templates'' ''/tmp/image.ova'']))"
    using upload_absent_item_uploads_once
      [where ops = ?p_rej and org = "Some ''org''" and org_name = None and s = "[]"
         and ?o1.0 = "''org''" and ?s1.0 = "[]" and ?tr1.0 = "[]" and cn = "''templates''"
         and fp = "''/tmp/image.ova''" and ?s2.0 = "[]" and e = "UploadException"
         and ?s3.0 = "[]" and ?s4.0 = "[]" and ?s5.0 = "[]" and ?s6.0 = "[]"
         and ?s7.0 = "[]" and item = "\<lparr>entity_href = ''item/image.ova''\<rparr>" and res = "\<lparr>tasks = [''item/image.ova/task'']\<rparr>"
         and t = "''item/image.ova/task''" and ts = "[]",
       THEN mp, OF rej0,
       THEN conjunct1, THEN mp, OF rej1]
    by (simp add: example_path_name)
  let ?p_reload = "(example_ops True True)\<lparr>org_reload := \<lambda>s org. (Inl (OtherError ''timeout''), s)\<rparr>"
  have reload0: "resolve_org ?p_reload (Some ''org'') None ([], []) = (Inr ''org'', ([], []))
        \<and> org_get_catalog_item ?p_reload [] ''org'' ''templates'' (path_name ?p_reload ''/tmp/image.ova'')
            = (Inl EntityNotFoundException, [])"
    by (simp add: example_ops_def basename_def resolve_org_def returns_def)
  have reload1: "org_upload_ovf ?p_reload [] ''org'' ''templates'' ''/tmp/image.ova'' = (Inr (), [''image.ova''])"
    by (simp add: example_ops_def basename_def)
  have reload2: "org_reload ?p_reload [''image.ova''] ''org'' = (Inl (OtherError ''timeout''), [''image.ova''])"
    by (simp add: example_ops_def basename_def)
  have reload: "upload_ova_to_catalog (?p_reload) ''templates'' ''/tmp/image.ova'' False
       (Some ''org'') None ([], [])
     = (Inl (OtherError ''timeout''), ([''image.ova''], [GetCatalogItem ''templates'' ''image.ova'', UploadOvf ''templates'' ''/tmp/image.ova'', Reload]))"
    using upload_absent_item_uploads_once
      [where ops = ?p_reload and org = "Some ''org''" and org_name = None and s = "[]"
         and ?o1.0 = "''org''" and ?s1.0 = "[]" and ?tr1.0 = "[]" and cn = "''templates''"
         and fp = "''/tmp/image.ova''" and ?s2.0 = "[]" and e = "OtherError ''timeout''"
         and ?s3.0 = "[''image.ova'']" and ?s4.0 = "[''image.ova'']" and ?s5.0 = "[''image.ova'']" and ?s6.0 = "[''image.ova'']"
         and ?s7.0 = "[''image.ova'']" and item = "\<lparr>entity_href = ''item/image.ova''\<rparr>" and res = "\<lparr>tasks = [''item/image.ova/task'']\<rparr>"
         and t = "''item/image.ova/task''" and ts = "[]",
       THEN mp, OF reload0,
       THEN conjunct2, THEN mp, OF reload1,
       THEN conjunct1, THEN mp, OF reload2]
    by (simp add: example_path_name)
  let ?p_lost = "(example_ops True True)\<lparr>org_upload_ovf := \<lambda>s org c f. (Inr (), s)\<rparr>"
  have lost0: "resolve_org ?p_lost (Some ''org'') None ([], []) = (Inr ''org'', ([], []))
        \<and> org_get_catalog_item ?p_lost [] ''org'' ''templates'' (path_name ?p_lost ''/tmp/image.ova'')
            = (Inl EntityNotFoundException, [])"
    by (simp add: example_ops_def basename_def resolve_org_def returns_def)
  have lost1: "org_upload_ovf ?p_lost [] ''org'' ''templates'' ''/tmp/image.ova'' = (Inr (), [])"
    by (simp add: example_ops_def basename_def)
  have lost2: "org_reload ?p_lost [] ''org'' = (Inr (), [])"
    by (simp add: example_ops_def basename_def)
  have lost3: "org_get_catalog_item ?p_lost [] ''org'' ''templates'' (path_name ?p_lost ''/tmp/image.ova'')
            = (Inl (EntityNotFoundException), [])"
    by (simp add: example_ops_def basename_def)
  have lost: "upload_ova_to_catalog (?p_lost) ''templates'' ''/tmp/image.ova'' False
       (Some ''org'') None ([], [])
     = (Inl EntityNotFoundException, ([], [GetCatalogItem ''templates'' ''image.ova'', UploadOvf ''templates'' ''/tmp/image.ova'', Reload, GetCatalogItem ''templates'' ''image.ova'']))"
    using upload_absent_item_uploads_once
      [where ops = ?p_lost and org = "Some ''org''" and org_name = None and s = "[]"
         and ?o1.0 = "''org''" and ?s1.0 = "[]" and ?tr1.0 = "[]" and cn = "''templates''"
         and fp = "''/tmp/image.ova''" and ?s2.0 = "[]" and e = "EntityNotFoundException"
         and ?s3.0 = "[]" and ?s4.0 = "[]" and ?s5.0 = "[]" and ?s6.0 = "[]"
         and ?s7.0 = "[]" and item = "\<lparr>entity_href = ''item/image.ova''\<rparr>" and res = "\<lparr>tasks = [''item/image.ova/task'']\<rparr>"
         and t = "''item/image.ova/task''" and ts = "[]",
       THEN mp, OF lost0,
       THEN conjunct2, THEN mp, OF lost1,
       THEN conjunct2, THEN mp, OF lost2,
       THEN conjunct1, THEN mp, OF lost3]
    by (simp add: example_path_name)
  let ?p_res = "(example_ops True True)\<lparr>client_get_resource := \<lambda>s h. (Inl (OtherError ''timeout''), s)\<rparr>"
  have res0: "resolve_org ?p_res (Some ''org'') None ([], []) = (Inr ''org'', ([], []))
        \<and> org_get_catalog_item ?p_res [] ''org'' ''templates'' (path_name ?p_res ''/tmp/image.ova'')
            = (Inl EntityNotFoundException, [])"
    by (simp add: example_ops_def basename_def resolve_org_def returns_def)
  have res1: "org_upload_ovf ?p_res [] ''org'' ''templates'' ''/tmp/image.ova'' = (Inr (), [''image.ova''])"
    by (simp add: example_ops_def basename_def)
  have res2: "org_reload ?p_res [''image.ova''] ''org'' = (Inr (), [''image.ova''])"
    by (simp add: example_ops_def basename_def)
  have res3: "org_get_catalog_item ?p_res [''image.ova''] ''org'' ''templates'' (path_name ?p_res ''/tmp/image.ova'')
            = (Inr \<lparr>entity_href = ''item/image.ova''\<rparr>, [''image.ova''])"
    by (simp add: example_ops_def basename_def)
  have res4: "client_get_resource ?p_res [''image.ova''] (entity_href \<lparr>entity_href = ''item/image.ova''\<rparr>) = (Inl (OtherError ''timeout''), [''image.ova''])"
    by (simp add: example_ops_def basename_def)
  have res: "upload_ova_to_catalog (?p_res) ''templates'' ''/tmp/image.ova'' False
       (Some ''org'') None ([], [])
     = (Inl (OtherError ''timeout''), ([''image.ova''], [GetCatalogItem ''templates'' ''image.ova'', UploadOvf ''templates'' ''/tmp/image.ova'', Reload, GetCatalogItem ''templates'' ''image.ova'', GetResource ''item/image.ova'']))"
    using upload_absent_item_uploads_once
      [where ops = ?p_res and org = "Some ''org''" and org_name = None and s = "[]"
         and ?o1.0 = "''org''" and ?s1.0 = "[]" and ?tr1.0 = "[]" and cn = "''templates''"
         and fp = "''/tmp/image.ova''" and ?s2.0 = "[]" and e = "OtherError ''timeout''"
         and ?s3.0 = "[''image.ova'']" and ?s4.0 = "[''image.ova'']" and ?s5.0 = "[''image.ova'']" and ?s6.0 = "[''image.ova'']"
         and ?s7.0 = "[''image.ova'']" and item = "\<lparr>entity_href = ''item/image.ova''\<rparr>" and res = "\<lparr>tasks = [''item/image.ova/task'']\<rparr>"
         and t = "''item/image.ova/task''" and ts = "[]",
       THEN mp, OF res0,
       THEN conjunct2, THEN mp, OF res1,
       THEN conjunct2, THEN mp, OF res2,
       THEN conjunct2, THEN mp, OF res3,
       THEN conjunct1, THEN mp, OF res4]
    by (simp add: example_path_name)
  let ?p_notask = "(example_ops True True)\<lparr>client_get_resource := \<lambda>s h. (Inr \<lparr>tasks = []\<rparr>, s)\<rparr>"
  have notask0: "resolve_org ?p_notask (Some ''org'') None ([], []) = (Inr ''org'', ([], []))
        \<and> org_get_catalog_item ?p_notask [] ''org'' ''templates'' (path_name ?p_notask ''/tmp/image.ova'')
            = (Inl EntityNotFoundException, [])"
    by (simp add: example_ops_def basename_def resolve_org_def returns_def)
  have notask1: "org_upload_ovf ?p_notask [] ''org'' ''templates'' ''/tmp/image.ova'' = (Inr (), [''image.ova''])"
    by (simp add: example_ops_def basename_def)
  have notask2: "org_reload ?p_notask [''image.ova''] ''org'' = (Inr (), [''image.ova''])"
    by (simp add: example_ops_def basename_def)
  have notask3: "org_get_catalog_item ?p_notask [''image.ova''] ''org'' ''templates'' (path_name ?p_notask ''/tmp/image.ova'')
            = (Inr \<lparr>entity_href = ''item/image.ova''\<rparr>, [''image.ova''])"
    by (simp add: example_ops_def basename_def)
  have notask4: "client_get_resource ?p_notask [''image.ova''] (entity_href \<lparr>entity_href = ''item/image.ova''\<rparr>) = (Inr \<lparr>tasks = []\<rparr>, [''image.ova''])"
    by (simp add: example_ops_def basename_def)
  have notask5: "tasks \<lparr>tasks = []\<rparr> = []"
    by (simp add: example_ops_def basename_def)
  have notask: "upload_ova_to_catalog (?p_notask) ''templates'' ''/tmp/image.ova'' False
       (Some ''org'') None ([], [])
     = (Inl AttributeError, ([''image.ova''], [GetCatalogItem ''templates'' ''image.ova'', UploadOvf ''templates'' ''/tmp/image.ova'', Reload, GetCatalogItem ''templates'' ''image.ova'', GetResource ''item/image.ova'']))"
    using upload_absent_item_uploads_once
      [where ops = ?p_notask and org = "Some ''org''" and org_name = None and s = "[]"
         and ?o1.0 = "''org''" and ?s1.0 = "[]" and ?tr1.0 = "[]" and cn = "''templates''"
         and fp = "''/tmp/image.ova''" and ?s2.0 = "[]" and e = "AttributeError"
         and ?s3.0 = "[''image.ova'']" and ?s4.0 = "[''image.ova'']" and ?s5.0 = "[''image.ova'']" and ?s6.0 = "[''image.ova'']"
         and ?s7.0 = "[''image.ova'']" and item = "\<lparr>entity_href = ''item/image.ova''\<rparr>" and res = "\<lparr>tasks = []\<rparr>"
         and t = "''item/image.ova/task''" and ts = "[]",
       THEN mp, OF notask0,
       THEN conjunct2, THEN mp, OF notask1,
       THEN conjunct2, THEN mp, OF notask2,
       THEN conjunct2, THEN mp, OF notask3,
       THEN conjunct2, THEN mp, OF notask4,
       THEN conjunct1, THEN mp, OF notask5]
    by (simp add: example_path_name)
  let ?p_task = "(example_ops True True)\<lparr>wait_for_success := \<lambda>s t. (Inl VcdTaskException, s)\<rparr>"
  have task0: "resolve_org ?p_task (Some ''org'') None ([], []) = (Inr ''org'', ([], []))
        \<and> org_get_catalog_item ?p_task [] ''org'' ''templates'' (path_name ?p_task ''/tmp/image.ova'')
            = (Inl EntityNotFoundException, [])"
    by (simp add: example_ops_def basename_def resolve_org_def returns_def)
  have task1: "org_upload_ovf ?p_task [] ''org'' ''templates'' ''/tmp/image.ova'' = (Inr (), [''image.ova''])"
    by (simp add: example_ops_def basename_def)
  have task2: "org_reload ?p_task [''image.ova''] ''org'' = (Inr (), [''image.ova''])"
    by (simp add: example_ops_def basename_def)
  have task3: "org_get_catalog_item ?p_task [''image.ova''] ''org'' ''templates'' (path_name ?p_task ''/tmp/image.ova'')
            = (Inr \<lparr>entity_href = ''item/image.ova''\<rparr>, [''image.ova''])"
    by (simp add: example_ops_def basename_def)
  have task4: "client_get_resource ?p_task [''image.ova''] (entity_href \<lparr>entity_href = ''item/image.ova''\<rparr>) = (Inr \<lparr>tasks = [''item/image.ova/task'']\<rparr>, [''image.ova''])"
    by (simp add: example_ops_def basename_def)
  have task5: "tasks \<lparr>tasks = [''item/image.ova/task'']\<rparr> = [''item/image.ova/task'']"
    by (simp add: example_ops_def basename_def)
  have task6: "wait_for_success ?p_task [''image.ova''] ''item/image.ova/task'' = (Inl (VcdTaskException), [''image.ova''])"
    by (simp add: example_ops_def basename_def)
  have task: "upload_ova_to_catalog (?p_task) ''templates'' ''/tmp/image.ova'' False
       (Some ''org'') None ([], [])
     = (Inl VcdTaskException, ([''image.ova''], [GetCatalogItem ''templates'' ''image.ova'', UploadOvf ''templates'' ''/tmp/image.ova'', Reload, GetCatalogItem ''templates'' ''image.ova'', GetResource ''item/image.ova'', WaitForSuccess ''item/image.ova/task'']))"
    using upload_absent_item_uploads_once
      [where ops = ?p_task and org = "Some ''org''" and org_name = None and s = "[]"
         and ?o1.0 = "''org''" and ?s1.0 = "[]" and ?tr1.0 = "[]" and cn = "''templates''"
         and fp = "''/tmp/image.ova''" and ?s2.0 = "[]" and e = "VcdTaskException"
         and ?s3.0 = "[''image.ova'']" and ?s4.0 = "[''image.ova'']" and ?s5.0 = "[''image.ova'']" and ?s6.0 = "[''image.ova'']"
         and ?s7.0 = "[''image.ova'']" and item = "\<lparr>entity_href = ''item/image.ova''\<rparr>" and res = "\<lparr>tasks = [''item/image.ova/task'']\<rparr>"
         and t = "''item/image.ova/task''" and ts = "[]",
       THEN mp, OF task0,
       THEN conjunct2, THEN mp, OF task1,
       THEN conjunct2, THEN mp, OF task2,
       THEN conjunct2, THEN mp, OF task3,
       THEN conjunct2, THEN mp, OF task4,
       THEN conjunct2, THEN mp, OF task5,
       THEN conjunct1, THEN mp, OF task6]
    by (simp add: example_path_name)
  let ?p_ok = "example_ops True True"
  have ok0: "resolve_org ?p_ok (Some ''org'') None ([], []) = (Inr ''org'', ([], []))
        \<and> org_get_catalog_item ?p_ok [] ''org'' ''templates'' (path_name ?p_ok ''/tmp/image.ova'')
            = (Inl EntityNotFoundException, [])"
    by (simp add: example_ops_def basename_def resolve_org_def returns_def)
  have ok1: "org_upload_ovf ?p_ok [] ''org'' ''templates'' ''/tmp/image.ova'' = (Inr (), [''image.ova''])"
    by (simp add: example_ops_def basename_def)
  have ok2: "org_reload ?p_ok [''image.ova''] ''org'' = (Inr (), [''image.ova''])"
    by (simp add: example_ops_def basename_def)
  have ok3: "org_get_catalog_item ?p_ok [''image.ova''] ''org'' ''templates'' (path_name ?p_ok ''/tmp/image.ova'')
            = (Inr \<lparr>entity_href = ''item/image.ova''\<rparr>, [''image.ova''])"
    by (simp add: example_ops_def basename_def)
  have ok4: "client_get_resource ?p_ok [''image.ova''] (entity_href \<lparr>entity_href = ''item/image.ova''\<rparr>) = (Inr \<lparr>tasks = [''item/image.ova/task'']\<rparr>, [''image.ova''])"
    by (simp add: example_ops_def basename_def)
  have ok5: "tasks \<lparr>tasks = [''item/image.ova/task'']\<rparr> = [''item/image.ova/task'']"
    by (simp add: example_ops_def basename_def)
  have ok6: "wait_for_success ?p_ok [''image.ova''] ''item/image.ova/task'' = (Inr (), [''image.ova''])"
    by (simp add: example_ops_def basename_def)
  have ok: "upload_ova_to_catalog (?p_ok) ''templates'' ''/tmp/image.ova'' False
       (Some ''org'') None ([], [])
     = (Inr (), ([''image.ova''], [GetCatalogItem ''templates'' ''image.ova'', UploadOvf ''templates'' ''/tmp/image.ova'', Reload, GetCatalogItem ''templates'' ''image.ova'', GetResource ''item/image.ova'', WaitForSuccess ''item/image.ova/task'']))"
    using upload_absent_item_uploads_once
      [where ops = ?p_ok and org = "Some ''org''" and org_name = None and s = "[]"
         and ?o1.0 = "''org''" and ?s1.0 = "[]" and ?tr1.0 = "[]" and cn = "''templates''"
         and fp = "''/tmp/image.ova''" and ?s2.0 = "[]" and e = "AttributeError"
         and ?s3.0 = "[''image.ova'']" and ?s4.0 = "[''image.ova'']" and ?s5.0 = "[''image.ova'']" and ?s6.0 = "[''image.ova'']"
         and ?s7.0 = "[''image.ova'']" and item = "\<lparr>entity_href = ''item/image.ova''\<rparr>" and res = "\<lparr>tasks = [''item/image.ova/task'']\<rparr>"
         and t = "''item/image.ova/task''" and ts = "[]",
       THEN mp, OF ok0,
       THEN conjunct2, THEN mp, OF ok1,
       THEN conjunct2, THEN mp, OF ok2,
       THEN conjunct2, THEN mp, OF ok3,
       THEN conjunct2, THEN mp, OF ok4,
       THEN conjunct2, THEN mp, OF ok5,
       THEN conjunct2, THEN mp, OF ok6, THEN conjunct1]
    by (simp add: example_path_name)
  show ?thesis
    using rej reload lost res notask task ok by (intro conjI)
qed


section \<open>process_response: properties\<close>

lemma status_member:
  "c \<in> set [codes_ok, codes_created, codes_accepted] \<longleftrightarrow> c = 200 \<or> c = 201 \<or> c = 202"
  by (auto simp: codes_ok_def codes_created_def codes_accepted_def)

lemma response_to_exception_raises: "\<exists>e. response_to_exception dec r = Inl e"
  unfolding response_to_exception_def
  by (simp split: sum.split option.split bool.split)

lemma process_response_other:
  "\<not> (status_code r = 200 \<or> status_code r = 201 \<or> status_code r = 202) \<Longrightarrow>
   process_response dec r = Inl e \<longleftrightarrow> response_to_exception dec r = Inl e"
  using response_to_exception_raises [of dec r]
  unfolding process_response_def status_member
  by auto



text \<open>
  Not part of the statement above: a message that is a text in which \<open>reason\<close> occurs.
  Line 140 finds the substring, line 141 indexes the text with it, and the exception is
  \<^verbatim>\<open>TypeError\<close>, where the docstrings of lines 93 and 129 promise
  \<^verbatim>\<open>VcdResponseError\<close>.
\<close>

lemma process_response_reason_in_text:
  assumes "\<not> (status_code r = 200 \<or> status_code r = 201 \<or> status_code r = 202)" and "status_code r \<noteq> 504"
      and "deserialize_response_content dec r = Inr (PyDict d)" and "map_of d ''message'' = Some (PyStr t)"
      and "is_substring ''reason'' t"
  shows "process_response dec r = Inl TypeError"
  unfolding process_response_other [OF assms(1)]
  using assms(2-5)
  by (simp add: response_to_exception_def ERROR_MESSAGE_def ERROR_REASON_def)


section \<open>download_file: properties\<close>

lemma download_file_skip:
  assumes "fs filepath = Some (File bytes)"
      and "sha256 = None \<or> (\<exists>h. sha256 = Some h \<and> get_sha256 os fs filepath = Inr h)"
  shows "download_file os url filepath sha256 fs = (Inr (), fs, [])"
  using assms by (auto simp: download_file_def is_file_def)

lemma download_file_changes:
  assumes "fst (snd (download_file os url filepath sha256 fs)) \<noteq> fs
           \<or> snd (snd (download_file os url filepath sha256 fs)) \<noteq> []"
  shows "\<not> is_file fs filepath \<or> (\<exists>h. sha256 = Some h \<and> get_sha256 os fs filepath \<noteq> Inr h)"
proof (rule ccontr)
  assume "\<not> (\<not> is_file fs filepath \<or> (\<exists>h. sha256 = Some h \<and> get_sha256 os fs filepath \<noteq> Inr h))"
  then have f: "is_file fs filepath"
    and d: "sha256 = None \<or> (\<exists>h. sha256 = Some h \<and> get_sha256 os fs filepath = Inr h)"
    by (cases sha256; auto)+
  from f obtain bytes where "fs filepath = Some (File bytes)"
    by (auto simp: is_file_def split: option.splits node.splits)
  from download_file_skip [OF this d] assms show False by simp
qed

text \<open>
  Claim C10. When a file exists at \<open>filepath\<close> and no sha256 is given, or the one given is
  the digest that \<^verbatim>\<open>get_sha256\<close> computes for the file, \<^verbatim>\<open>download_file\<close> returns
  with the file system as it was and without a request. When the file system has changed
  or a request has been issued, there was no file at \<open>filepath\<close>, or a sha256 was given
  that is not the digest of the file.
\<close>

theorem download_file_skips_existing_file:
  "(fs filepath = Some (File bytes)
      \<and> (sha = None \<or> (\<exists>h. sha = Some h \<and> get_sha256 os fs filepath = Inr h)) \<longrightarrow>
      download_file os url filepath sha fs = (Inr (), fs, []))
   \<and> (fst (snd (download_file os url filepath sha fs)) \<noteq> fs
        \<or> snd (snd (download_file os url filepath sha fs)) \<noteq> [] \<longrightarrow>
      \<not> is_file fs filepath
        \<or> (\<exists>h. sha = Some h \<and> get_sha256 os fs filepath \<noteq> Inr h))"
  using download_file_skip [of fs filepath bytes sha os url]
        download_file_changes [of os url filepath sha fs]
  by blast

lemma sha256_read_loop_short:
  "bytes \<noteq> [] \<Longrightarrow> length bytes \<le> BUF_SIZE \<Longrightarrow>
   sha256_read_loop os h bytes = sha256_update os h bytes"
  by (subst sha256_read_loop.simps, subst sha256_read_loop.simps) (simp add: BUF_SIZE_def)

lemma example_digest: "get_sha256 example_os [''/tmp/a.ova'' \<mapsto> File ''abc''] ''/tmp/a.ova'' = Inr ''abc''"
  by (simp add: get_sha256_def sha256_read_loop_short BUF_SIZE_def example_os_def)

text \<open>
  The theorem on a file with the bytes \<open>abc\<close>: skipped without a sha256 and with the
  right one, requested with another one.
\<close>

theorem download_file_skips_existing_file_witness:
  "download_file example_os ''http://x/a.ova'' ''/tmp/a.ova'' None
       [''/tmp/a.ova'' \<mapsto> File ''abc'']
     = (Inr (), [''/tmp/a.ova'' \<mapsto> File ''abc''], [])
   \<and> download_file example_os ''http://x/a.ova'' ''/tmp/a.ova'' (Some ''abc'')
       [''/tmp/a.ova'' \<mapsto> File ''abc'']
     = (Inr (), [''/tmp/a.ova'' \<mapsto> File ''abc''], [])
   \<and> snd (snd (download_file example_os ''http://x/a.ova'' ''/tmp/a.ova'' (Some ''abd'')
       [''/tmp/a.ova'' \<mapsto> File ''abc''])) = [''http://x/a.ova'']
   \<and> get_sha256 example_os [''/tmp/a.ova'' \<mapsto> File ''abc''] ''/tmp/a.ova'' \<noteq> Inr ''abd''"
proof -
  let ?fs = "[''/tmp/a.ova'' \<mapsto> File ''abc'']"
  have f: "?fs ''/tmp/a.ova'' = Some (File ''abc'')" by simp
  have a: "download_file example_os ''http://x/a.ova'' ''/tmp/a.ova'' None ?fs = (Inr (), ?fs, [])"
    using download_file_skips_existing_file
            [where fs = ?fs and filepath = "''/tmp/a.ova''" and bytes = "''abc''"
               and sha = None and os = example_os and url = "''http://x/a.ova''",
             THEN conjunct1] f
    by simp
  have b: "download_file example_os ''http://x/a.ova'' ''/tmp/a.ova'' (Some ''abc'') ?fs
             = (Inr (), ?fs, [])"
    using download_file_skips_existing_file
            [where fs = ?fs and filepath = "''/tmp/a.ova''" and bytes = "''abc''"
               and sha = "Some ''abc''" and os = example_os and url = "''http://x/a.ova''",
             THEN conjunct1] f example_digest
    by simp
  have t: "snd (snd (download_file example_os ''http://x/a.ova'' ''/tmp/a.ova'' (Some ''abd'') ?fs))
             = [''http://x/a.ova'']"
    by (simp add: download_file_def is_file_def example_digest) (simp add: example_os_def)
  have c: "get_sha256 example_os ?fs ''/tmp/a.ova'' \<noteq> Inr ''abd''"
    using download_file_skips_existing_file
            [where fs = ?fs and filepath = "''/tmp/a.ova''"
               and sha = "Some ''abd''" and os = example_os and url = "''http://x/a.ova''",
             THEN conjunct2] t
    by (simp add: is_file_def)
  show ?thesis using a b t c by (intro conjI)
qed

end
